theory Spec2Isabelle
  imports Complex_Main "HOL-Library.AList" "HOL-Library.Multiset"
begin

section \<open>JavaScript values\<close>

text \<open>
  Values that cross the tool surface are JSON trees. A property read that yields
  \<open>undefined\<close> is \<open>None\<close> of type \<open>json option\<close>. Objects are association lists
  with distinct keys, in insertion order. Numbers are real numbers: the model covers
  the finite doubles and no rounding.
\<close>

datatype json =
    JNull
  | JBool bool
  | JNum real
  | JStr string
  | JArr "json list"
  | JObj "(string \<times> json) list"

text \<open>Every exception of the modelled code is a value.\<close>

datatype js_error =
    NotFound string
  | SyntaxError
  | TypeError string
  | ProjectMismatch string "json option"
  | StorageError string
  | RegExpError string
  | BackendError string
  | InjectionFailed js_error

section \<open>Strings\<close>

text \<open>
  \<open>toLowerCase\<close>, \<open>split_ws\<close> and the literal patterns below are those of
  JavaScript on ASCII texts: there \<open>toLowerCase\<close> maps \<open>A-Z\<close> to \<open>a-z\<close> and
  nothing else, and \<open>\s\<close> is the ASCII white space. \<open>\w\<close> is \<open>[A-Za-z0-9_]\<close>
  on every text. On a text with other characters the program's functions take what
  the engine does from a parameter.
\<close>

definition ascii :: "string \<Rightarrow> bool" where
  "ascii s = list_all (\<lambda>c. (of_char c :: nat) < 128) s"

definition toLowerCase_char :: "char \<Rightarrow> char" where
  "toLowerCase_char c =
     (case map_of (zip ''ABCDEFGHIJKLMNOPQRSTUVWXYZ'' ''abcdefghijklmnopqrstuvwxyz'') c of
        None \<Rightarrow> c
      | Some d \<Rightarrow> d)"

definition toLowerCase :: "string \<Rightarrow> string" where
  "toLowerCase s = map toLowerCase_char s"

text \<open>\<open>s.toLowerCase()\<close> on every text; \<open>other\<close> is the engine beyond ASCII.\<close>

definition lower_case :: "(string \<Rightarrow> string) \<Rightarrow> string \<Rightarrow> string" where
  "lower_case other s = (if ascii s then toLowerCase s else other s)"

definition is_space :: "char \<Rightarrow> bool" where
  "is_space c = (c \<in> set [CHR 0x09, CHR 0x0A, CHR 0x0B, CHR 0x0C, CHR 0x0D, CHR '' ''])"

definition is_word_char :: "char \<Rightarrow> bool" where
  "is_word_char c =
     (c \<in> set ''abcdefghijklmnopqrstuvwxyzABCDEFGHIJKLMNOPQRSTUVWXYZ0123456789_'')"

text \<open>\<open>s.startsWith(w)\<close> and \<open>s.includes(w)\<close>.\<close>

fun starts_with :: "string \<Rightarrow> string \<Rightarrow> bool" where
  "starts_with s [] = True"
| "starts_with [] (c # w) = False"
| "starts_with (d # t) (c # w) = (d = c \<and> starts_with t w)"

fun str_includes :: "string \<Rightarrow> string \<Rightarrow> bool" where
  "str_includes [] w = (w = [])"
| "str_includes (d # t) w = (starts_with (d # t) w \<or> str_includes t w)"

text \<open>
  \<open>s.split(/\s+/)\<close>: the fields between maximal runs of white space. Leading or
  trailing white space gives an empty first or last field, and the empty string
  gives one empty field. \<open>in_sep\<close> says that the previous character was white space.
\<close>

fun split_ws_from :: "bool \<Rightarrow> string \<Rightarrow> string \<Rightarrow> string list" where
  "split_ws_from in_sep cur [] = [cur]"
| "split_ws_from in_sep cur (c # cs) =
     (if is_space c
      then (if in_sep then split_ws_from True cur cs else cur # split_ws_from True [] cs)
      else split_ws_from False (cur @ [c]) cs)"

definition split_ws :: "string \<Rightarrow> string list" where
  "split_ws s = split_ws_from False [] s"

text \<open>\<open>s.split(/\s+/)\<close> on every text; \<open>other\<close> is the engine beyond ASCII.\<close>

definition split_white :: "(string \<Rightarrow> string list) \<Rightarrow> string \<Rightarrow> string list" where
  "split_white other s = (if ascii s then split_ws s else other s)"



section \<open>The regular expression of calculateTextScore\<close>

text \<open>
  \<open>new RegExp(`\\b${word}\\b`, 'gi')\<close> interpolates the word unescaped. A word
  without a metacharacter is a literal pattern, and its matches in ASCII texts are
  modelled here: a word boundary, the word compared case-insensitively, a word
  boundary. A word with a metacharacter is a pattern of its own or a SyntaxError;
  that is left to the parameter \<open>rx\<close> of \<open>match_count\<close>.
\<close>

definition regex_meta :: "char \<Rightarrow> bool" where
  "regex_meta c = (c \<in> set (CHR 0x5C # ''^$.|?*+()[]{}''))"

definition is_word_opt :: "char option \<Rightarrow> bool" where
  "is_word_opt p = (case p of None \<Rightarrow> False | Some c \<Rightarrow> is_word_char c)"

definition word_boundary :: "char option \<Rightarrow> char option \<Rightarrow> bool" where
  "word_boundary p n = (is_word_opt p \<noteq> is_word_opt n)"

definition next_char :: "string \<Rightarrow> char option" where
  "next_char s = (case s of [] \<Rightarrow> None | c # _ \<Rightarrow> Some c)"

fun match_literal :: "string \<Rightarrow> char option \<Rightarrow> string \<Rightarrow> bool" where
  "match_literal [] p s = word_boundary p (next_char s)"
| "match_literal (c # w) p [] = False"
| "match_literal (c # w) p (d # s) =
     (toLowerCase_char d = toLowerCase_char c \<and> match_literal w (Some d) s)"

definition match_here :: "string \<Rightarrow> char option \<Rightarrow> string \<Rightarrow> bool" where
  "match_here w p s = (word_boundary p (next_char s) \<and> match_literal w p s)"

text \<open>
  The global flag: matches are searched from left to right, and the search resumes
  after the end of a match (\<open>skip\<close> counts the characters of the match still to
  pass), one character further after an empty match.
\<close>

fun count_matches :: "string \<Rightarrow> nat \<Rightarrow> char option \<Rightarrow> string \<Rightarrow> nat" where
  "count_matches w skip p [] = (if skip = 0 \<and> match_here w p [] then 1 else 0)"
| "count_matches w skip p (c # s) =
     (if 0 < skip then count_matches w (skip - 1) (Some c) s
      else if match_here w p (c # s) then 1 + count_matches w (length w - 1) (Some c) s
      else count_matches w 0 (Some c) s)"

text \<open>
  What the text score takes from the JavaScript engine: the number of matches of
  \<open>\bword\b\<close> with the flags \<open>gi\<close> where the word holds a metacharacter or the
  texts are not ASCII (\<open>Inl\<close> when the RegExp constructor throws), and
  \<open>toLowerCase\<close> and \<open>split(/\s+/)\<close> on texts that are not ASCII.
\<close>

record text_engine =
  regex_other :: "string \<Rightarrow> string \<Rightarrow> js_error + nat"
  lower_other :: "string \<Rightarrow> string"
  split_other :: "string \<Rightarrow> string list"

definition match_count :: "text_engine \<Rightarrow> string \<Rightarrow> string \<Rightarrow> js_error + nat" where
  "match_count rx w s =
     (if ascii w \<and> ascii s \<and> \<not> list_ex regex_meta w
      then Inr (count_matches w 0 None s)
      else regex_other rx w s)"

text \<open>
  An engine that rejects every pattern it is asked for and leaves the other texts
  as they are, for concrete evaluations.
\<close>

definition rx_reject :: text_engine where
  "rx_reject =
     \<lparr> regex_other = (\<lambda>w s. Inl (RegExpError w)), lower_other = (\<lambda>s. s),
       split_other = (\<lambda>s. [s]) \<rparr>"

section \<open>vector-search.js: constants\<close>

definition DEFAULT_LIMIT :: int where "DEFAULT_LIMIT = 10"
definition MAX_SCROLL_LIMIT :: int where "MAX_SCROLL_LIMIT = 50"
definition SCORE_MULTIPLIER :: nat where "SCORE_MULTIPLIER = 2"
definition MULTI_MATCH_BONUS :: real where "MULTI_MATCH_BONUS = 3 / 2"
definition PHRASE_MATCH_BONUS :: real where "PHRASE_MATCH_BONUS = 10"
definition PRIORITY_BOOST_MULTIPLIER :: real where "PRIORITY_BOOST_MULTIPLIER = 3 / 2"
definition HOURS_IN_DAY :: real where "HOURS_IN_DAY = 24"
definition MS_PER_HOUR :: real where "MS_PER_HOUR = 1000 * 60 * 60"
definition DEFAULT_DECAY_FACTOR :: real where "DEFAULT_DECAY_FACTOR = 1 / 10"
definition DEFAULT_PRIORITY_HOURS :: real where "DEFAULT_PRIORITY_HOURS = 48"

section \<open>QdrantClient.calculateTextScore\<close>

text \<open>
  The body of the \<open>forEach\<close>: the pair is \<open>(score, exactMatches)\<close>. An exception
  of the RegExp constructor leaves the loop.
\<close>

definition score_word ::
  "text_engine \<Rightarrow> string \<Rightarrow> js_error + real \<times> nat \<Rightarrow> string \<Rightarrow> js_error + real \<times> nat" where
  "score_word rx contentLower acc word =
     (case acc of
        Inl e \<Rightarrow> Inl e
      | Inr (score, exactMatches) \<Rightarrow>
          if SCORE_MULTIPLIER < length word
          then (case match_count rx word contentLower of
                  Inl e \<Rightarrow> Inl e
                | Inr matches \<Rightarrow>
                    Inr (score + real (matches * SCORE_MULTIPLIER),
                         if 0 < matches then exactMatches + 1 else exactMatches))
          else Inr (score, exactMatches))"

definition calculateTextScore :: "text_engine \<Rightarrow> string \<Rightarrow> string \<Rightarrow> js_error + real" where
  "calculateTextScore rx query content =
     (if content = [] then Inr 0
      else
        let queryLower = lower_case (lower_other rx) query;
            queryWords = split_white (split_other rx) queryLower;
            contentLower = lower_case (lower_other rx) content
        in case foldl (score_word rx contentLower) (Inr (0, 0)) queryWords of
             Inl e \<Rightarrow> Inl e
           | Inr (score, exactMatches) \<Rightarrow>
               let score1 = (if 1 < exactMatches
                             then score + real exactMatches * MULTI_MATCH_BONUS else score);
                   score2 = (if 1 < length queryWords \<and> str_includes contentLower queryLower
                             then score1 + PHRASE_MATCH_BONUS else score1)
               in Inr score2)"

text \<open>
  The term-overlap heuristic as the specification words it: the query is split into
  lowercase white-space-delimited tokens and the tokens of length at most 2 are
  discarded; each word-boundary occurrence of each surviving token weighs 2 points;
  when more than one distinct token matched, 1.5 times the number of distinct matched
  tokens is added; and 10 points are added when the query has several tokens and its
  lowercase form is a substring of the content. A token is a field between white
  space that is not empty.
\<close>

definition spec_query_tokens :: "string \<Rightarrow> string list" where
  "spec_query_tokens query = filter (\<lambda>w. w \<noteq> []) (split_ws (toLowerCase query))"

definition spec_tokens :: "string \<Rightarrow> string list" where
  "spec_tokens query = filter (\<lambda>w. \<not> length w \<le> 2) (spec_query_tokens query)"

definition spec_occurrences :: "string \<Rightarrow> string \<Rightarrow> nat" where
  "spec_occurrences content w = count_matches w 0 None (toLowerCase content)"

definition spec_phrase_bonus :: "string \<Rightarrow> string \<Rightarrow> real" where
  "spec_phrase_bonus query content =
     (if 1 < length (spec_query_tokens query)
         \<and> str_includes (toLowerCase content) (toLowerCase query)
      then 10 else 0)"

definition spec_multi_bonus :: "string list \<Rightarrow> real" where
  "spec_multi_bonus matched = (if 1 < length matched then 3 / 2 * real (length matched) else 0)"

definition spec_textScore :: "string \<Rightarrow> string \<Rightarrow> real" where
  "spec_textScore query content =
     (let toks = spec_tokens query;
          matched = remdups (filter (\<lambda>w. 0 < spec_occurrences content w) toks)
      in 2 * real (sum_list (map (spec_occurrences content) toks))
         + spec_multi_bonus matched + spec_phrase_bonus query content)"

text \<open>
  The heuristic as amended in two places. The matched tokens are counted as often as
  the query repeats them. The phrase bonus asks for more than one field of the split
  query, where the white space before the first token and after the last one makes
  an empty field that counts.
\<close>

definition amended_phrase_bonus :: "string \<Rightarrow> string \<Rightarrow> real" where
  "amended_phrase_bonus query content =
     (if 1 < length (split_ws (toLowerCase query))
         \<and> str_includes (toLowerCase content) (toLowerCase query)
      then 10 else 0)"

definition spec_textScore_amended :: "string \<Rightarrow> string \<Rightarrow> real" where
  "spec_textScore_amended query content =
     (let toks = spec_tokens query;
          matched = filter (\<lambda>w. 0 < spec_occurrences content w) toks
      in 2 * real (sum_list (map (spec_occurrences content) toks))
         + spec_multi_bonus matched + amended_phrase_bonus query content)"

section \<open>vector-search.js: data\<close>

text \<open>
  A number that a computation with dates yields: a real number, or \<open>NaN\<close>. The
  product of any number with \<open>NaN\<close> is \<open>NaN\<close>.
\<close>

datatype num = Num real | NaN

fun num_times :: "real \<Rightarrow> num \<Rightarrow> num" where
  "num_times x (Num y) = Num (x * y)"
| "num_times x NaN = NaN"

text \<open>
  A timestamp field of a payload, by what the code makes of it: \<open>No_timestamp\<close> when
  the field is absent or falsy, \<open>Date_ms t\<close> when it is truthy and
  \<open>new Date(field)\<close> is the instant \<open>t\<close> (milliseconds since the epoch),
  \<open>Invalid_date\<close> when it is truthy and \<open>new Date(field)\<close> is an invalid date,
  whose time is \<open>NaN\<close>.
\<close>

datatype timestamp = No_timestamp | Date_ms real | Invalid_date

text \<open>
  The payload of a Qdrant point. \<open>content\<close> is the text field, \<open>None\<close> when
  absent.
\<close>

record payload =
  content :: "string option"
  created_at :: timestamp
  upload_timestamp :: timestamp

record point =
  point_id :: string
  point_payload :: "payload option"

text \<open>
  An element of \<open>results\<close>. \<open>enhanced_score\<close> and \<open>timestamp_boost\<close> are absent
  until \<open>applyTimestampScoring\<close> has run.
\<close>

record search_hit =
  hit_id :: string
  hit_payload :: "payload option"
  hit_collection :: string
  hit_score :: real
  enhanced_score :: "num option"
  timestamp_boost :: "num option"

record mongo_doc =
  doc_id :: string
  doc_content :: string
  doc_from :: string
  doc_to :: string

text \<open>
  What the engine reaches through the network and the clock. \<open>scroll query coll limit\<close>
  is the POST to \<open>/collections/coll/points/scroll\<close>: \<open>Inl\<close> when \<open>fetch\<close> or
  \<open>response.json()\<close> throws, else the points of the response, none when the response
  is not ok or has no \<open>result.points\<close>. \<open>mongo_find\<close> is the \<open>find\<close> of
  \<open>searchDocuments\<close>, \<open>Inl\<close> when connecting or querying throws. \<open>regex\<close> is
  what the text score takes from the JavaScript engine. \<open>clock\<close> is
  \<open>Date.now()\<close>. \<open>sort_order\<close> is the order in which the engine's
  \<open>Array.prototype.sort\<close> leaves an array when the comparator returns \<open>NaN\<close> for
  some pair, which the language leaves to the implementation.
\<close>

record backends =
  scroll :: "string \<Rightarrow> string \<Rightarrow> int \<Rightarrow> js_error + point list"
  regex :: text_engine
  mongo_find :: "string \<Rightarrow> int \<Rightarrow> js_error + mongo_doc list"
  clock :: real
  sort_order :: "search_hit list \<Rightarrow> search_hit list"

text \<open>What a backend call resolves to, after the spread into the tagged object.\<close>

datatype db_result =
    Qdrant_ok "search_hit list" nat
  | Qdrant_fail js_error
  | Mongo_ok nat "mongo_doc list"
  | Mongo_fail js_error

fun db_success :: "db_result \<Rightarrow> bool" where
  "db_success (Qdrant_ok rs n) = True"
| "db_success (Qdrant_fail e) = False"
| "db_success (Mongo_ok n ds) = True"
| "db_success (Mongo_fail e) = False"

text \<open>\<open>r.total || r.count || 0\<close>.\<close>

fun db_total :: "db_result \<Rightarrow> nat" where
  "db_total (Qdrant_ok rs n) = n"
| "db_total (Qdrant_fail e) = 0"
| "db_total (Mongo_ok n ds) = n"
| "db_total (Mongo_fail e) = 0"

text \<open>\<open>r.results\<close>, \<open>None\<close> when the object has no such field.\<close>

fun db_results :: "db_result \<Rightarrow> search_hit list option" where
  "db_results (Qdrant_ok rs n) = Some rs"
| "db_results (Qdrant_fail e) = None"
| "db_results (Mongo_ok n ds) = None"
| "db_results (Mongo_fail e) = None"

section \<open>Arrays\<close>

text \<open>
  \<open>xs.sort((a, b) => key(b) - key(a))\<close>: descending by key and stable, so elements
  with equal keys keep their order.
\<close>

definition sort_desc :: "('a \<Rightarrow> real) \<Rightarrow> 'a list \<Rightarrow> 'a list" where
  "sort_desc key xs = sort_key (\<lambda>x. - key x) xs"

text \<open>\<open>xs.slice(0, n)\<close> for an integer \<open>n\<close>: a negative \<open>n\<close> counts from the end.\<close>

definition slice0 :: "int \<Rightarrow> 'a list \<Rightarrow> 'a list" where
  "slice0 n xs = (if n < 0 then take (nat (int (length xs) + n)) xs else take (nat n) xs)"

text \<open>A \<open>map\<close> whose callback may throw: the first exception ends it.\<close>

fun map_throwing :: "('a \<Rightarrow> js_error + 'b) \<Rightarrow> 'a list \<Rightarrow> js_error + 'b list" where
  "map_throwing f [] = Inr []"
| "map_throwing f (x # xs) =
     (case f x of
        Inl e \<Rightarrow> Inl e
      | Inr y \<Rightarrow> (case map_throwing f xs of Inl e \<Rightarrow> Inl e | Inr ys \<Rightarrow> Inr (y # ys)))"

section \<open>QdrantClient\<close>

definition collections :: "string list" where
  "collections = [''boss-lessons-learned'', ''boss-development-docs'']"

text \<open>\<open>point.payload.content || ''\<close>; reading \<open>content\<close> of a missing payload throws.\<close>

definition point_to_hit :: "text_engine \<Rightarrow> string \<Rightarrow> string \<Rightarrow> point \<Rightarrow> js_error + search_hit" where
  "point_to_hit rx query collectionName pt =
     (case point_payload pt of
        None \<Rightarrow> Inl (TypeError ''content'')
      | Some pl \<Rightarrow>
          (case calculateTextScore rx query (case content pl of None \<Rightarrow> [] | Some c \<Rightarrow> c) of
             Inl e \<Rightarrow> Inl e
           | Inr s \<Rightarrow>
               Inr \<lparr> hit_id = point_id pt, hit_payload = Some pl,
                     hit_collection = collectionName, hit_score = s,
                     enhanced_score = None, timestamp_boost = None \<rparr>))"

definition searchCollection :: "backends \<Rightarrow> string \<Rightarrow> string \<Rightarrow> int \<Rightarrow> js_error + search_hit list" where
  "searchCollection env query collectionName limit =
     (case scroll env query collectionName (min limit MAX_SCROLL_LIMIT) of
        Inl e \<Rightarrow> Inl e
      | Inr points \<Rightarrow> map_throwing (point_to_hit (regex env) query collectionName) points)"

text \<open>The loop over the target collections, \<open>allResults\<close> as accumulator.\<close>

fun search_collections ::
  "backends \<Rightarrow> string \<Rightarrow> int \<Rightarrow> string list \<Rightarrow> search_hit list \<Rightarrow> js_error + search_hit list" where
  "search_collections env query limit [] allResults = Inr allResults"
| "search_collections env query limit (coll # rest) allResults =
     (case searchCollection env query coll limit of
        Inl e \<Rightarrow> Inl e
      | Inr results \<Rightarrow> search_collections env query limit rest (allResults @ results))"

definition searchVectors :: "backends \<Rightarrow> string \<Rightarrow> int \<Rightarrow> db_result" where
  "searchVectors env query limit =
     (case search_collections env query limit collections [] of
        Inl e \<Rightarrow> Qdrant_fail e
      | Inr allResults \<Rightarrow>
          let limitedResults = slice0 limit (sort_desc hit_score allResults)
          in Qdrant_ok limitedResults (length limitedResults))"

section \<open>MongoDBClient.searchDocuments\<close>

definition searchDocuments :: "backends \<Rightarrow> string \<Rightarrow> int \<Rightarrow> db_result" where
  "searchDocuments env query limit =
     (case mongo_find env query limit of
        Inl e \<Rightarrow> Mongo_fail e
      | Inr results \<Rightarrow> Mongo_ok (length results) results)"

section \<open>MultiDatabaseSearch\<close>

text \<open>\<open>x || d\<close> for an optional number: \<open>undefined\<close> and \<open>0\<close> are falsy.\<close>

definition or_default :: "'a::zero option \<Rightarrow> 'a \<Rightarrow> 'a" where
  "or_default x d = (case x of None \<Rightarrow> d | Some v \<Rightarrow> if v = 0 then d else v)"

record engine_options =
  opt_freshnessDecayFactor :: "real option"
  opt_maxActiveResults :: "int option"
  opt_latestPriorityHours :: "real option"

record engine =
  freshnessDecayFactor :: real
  maxActiveResults :: int
  latestPriorityHours :: real

definition MultiDatabaseSearch :: "engine_options \<Rightarrow> engine" where
  "MultiDatabaseSearch options =
     \<lparr> freshnessDecayFactor = or_default (opt_freshnessDecayFactor options) DEFAULT_DECAY_FACTOR,
       maxActiveResults = or_default (opt_maxActiveResults options) DEFAULT_LIMIT,
       latestPriorityHours = or_default (opt_latestPriorityHours options) DEFAULT_PRIORITY_HOURS \<rparr>"

text \<open>
  The promises in the order they are pushed, each with its \<open>database\<close> tag. Neither
  client call rejects, both catch their errors; the MongoDB client is constructed
  without options, so the \<open>database\<close> field of its answer is \<open>admin\<close> as well.
\<close>

definition createSearchPromises ::
  "backends \<Rightarrow> string \<Rightarrow> string list \<Rightarrow> int \<Rightarrow> (string \<times> db_result) list" where
  "createSearchPromises env query dbs limit =
     (if ''qdrant'' \<in> set dbs then [(''qdrant'', searchVectors env query limit)] else [])
     @ (if ''mongodb'' \<in> set dbs \<or> ''admin'' \<in> set dbs
        then [(''admin'', searchDocuments env query limit)] else [])"

record summary =
  totalSources :: nat
  successfulSources :: nat
  totalResults :: nat

record aggregate =
  agg_success :: bool
  agg_query :: string
  databases :: "string \<rightharpoonup> db_result"
  agg_summary :: summary

definition formatSearchResults :: "string \<Rightarrow> (string \<times> db_result) list \<Rightarrow> aggregate" where
  "formatSearchResults query results =
     \<lparr> agg_success = True,
       agg_query = query,
       databases = foldl (\<lambda>acc result. acc(fst result \<mapsto> snd result)) Map.empty results,
       agg_summary =
         \<lparr> totalSources = length results,
           successfulSources = length (filter (\<lambda>r. db_success (snd r)) results),
           totalResults = foldl (\<lambda>sum r. sum + db_total (snd r)) 0 results \<rparr> \<rparr>"

definition searchAll :: "backends \<Rightarrow> string \<Rightarrow> string list \<Rightarrow> int \<Rightarrow> aggregate" where
  "searchAll env query dbs limit =
     formatSearchResults query (createSearchPromises env query dbs limit)"

definition calculateRelevance :: "engine \<Rightarrow> real \<Rightarrow> real \<Rightarrow> real \<Rightarrow> real \<Rightarrow> real" where
  "calculateRelevance this now semanticScore timestamp boost =
     (let ageHours = (now - timestamp) / MS_PER_HOUR;
          finalBoost = (if ageHours \<le> latestPriorityHours this
                        then boost * PRIORITY_BOOST_MULTIPLIER else boost);
          ageDays = ageHours / HOURS_IN_DAY;
          freshnessPenalty = exp (- freshnessDecayFactor this * ageDays)
      in semanticScore * freshnessPenalty * finalBoost)"

record search_options =
  opt_limit :: "int option"
  opt_freshness_boost :: "bool option"
  opt_decay_factor :: "real option"
  opt_databases :: "string list option"

record search_config =
  limit :: int
  freshness_boost :: bool
  decay_factor :: real
  cfg_databases :: "string list"

definition parseTimestampSearchOptions :: "search_options \<Rightarrow> search_config" where
  "parseTimestampSearchOptions options =
     \<lparr> limit = or_default (opt_limit options) DEFAULT_LIMIT,
       freshness_boost = (opt_freshness_boost options \<noteq> Some False),
       decay_factor = or_default (opt_decay_factor options) DEFAULT_DECAY_FACTOR,
       cfg_databases = (case opt_databases options of None \<Rightarrow> [''qdrant''] | Some d \<Rightarrow> d) \<rparr>"

text \<open>\<open>result.payload?.created_at || result.payload?.upload_timestamp\<close>.\<close>

definition timestampField :: "search_hit \<Rightarrow> timestamp" where
  "timestampField result =
     (case hit_payload result of
        None \<Rightarrow> No_timestamp
      | Some pl \<Rightarrow> if created_at pl = No_timestamp then upload_timestamp pl else created_at pl)"

text \<open>
  With an invalid date \<open>now - timestamp\<close> is \<open>NaN\<close>, and so is the score.
\<close>

definition calculateTimestampScore :: "search_hit \<Rightarrow> real \<Rightarrow> real \<Rightarrow> num" where
  "calculateTimestampScore result now decayFactor =
     (case timestampField result of
        No_timestamp \<Rightarrow> Num 1
      | Date_ms timestamp \<Rightarrow>
          let daysSince = (now - timestamp) / (MS_PER_HOUR * HOURS_IN_DAY)
          in Num (exp (- decayFactor * daysSince))
      | Invalid_date \<Rightarrow> NaN)"

text \<open>The callback of the \<open>map\<close>; \<open>result.score || 1.0\<close> reads a score of 0 as 1.\<close>

definition score_hit :: "real \<Rightarrow> real \<Rightarrow> search_hit \<Rightarrow> search_hit" where
  "score_hit now decayFactor result =
     (let timestampScore = calculateTimestampScore result now decayFactor;
          originalScore = (if hit_score result = 0 then 1 else hit_score result)
      in result \<lparr> enhanced_score := Some (num_times originalScore timestampScore),
                  timestamp_boost := Some timestampScore \<rparr>)"


text \<open>
  The sort key \<open>enhanced_score\<close> where it is a real number; every element has an
  \<open>enhanced_score\<close> after the \<open>map\<close>.
\<close>

definition enhanced :: "search_hit \<Rightarrow> real" where
  "enhanced result = (case enhanced_score result of Some (Num e) \<Rightarrow> e | _ \<Rightarrow> 0)"

definition has_nan_score :: "search_hit \<Rightarrow> bool" where
  "has_nan_score result = (enhanced_score result = Some NaN)"

text \<open>
  \<open>results.sort((a, b) => b.enhanced_score - a.enhanced_score)\<close>. When every
  score is a real number the comparator is consistent and the sort is descending and
  stable. When a score is \<open>NaN\<close> the comparator returns \<open>NaN\<close>, which the sort
  reads as 0 for that pair; the comparator is then not consistent and the order is
  the implementation's, and the result is still a permutation of the array, so the
  order of the engine is taken when it is one.
\<close>

definition sort_by_enhanced ::
  "(search_hit list \<Rightarrow> search_hit list) \<Rightarrow> search_hit list \<Rightarrow> search_hit list" where
  "sort_by_enhanced order results =
     (if list_ex has_nan_score results
      then (if mset (order results) = mset results then order results else results)
      else sort_desc enhanced results)"

text \<open>
  \<open>applyTimestampScoring\<close> replaces \<open>searchResult.databases.qdrant.results\<close>; it is
  called only when that field exists. \<open>now\<close> is the clock of the surroundings.
\<close>

definition applyTimestampScoring :: "backends \<Rightarrow> aggregate \<Rightarrow> real \<Rightarrow> aggregate" where
  "applyTimestampScoring env searchResult decayFactor =
     (case databases searchResult ''qdrant'' of
        Some (Qdrant_ok results n) \<Rightarrow>
          searchResult \<lparr> databases := (databases searchResult)(''qdrant'' \<mapsto>
            Qdrant_ok (sort_by_enhanced (sort_order env)
                         (map (score_hit (clock env) decayFactor) results)) n) \<rparr>
      | _ \<Rightarrow> searchResult)"

text \<open>\<open>searchResult.databases.qdrant?.results\<close>.\<close>

definition qdrant_results :: "aggregate \<Rightarrow> search_hit list option" where
  "qdrant_results searchResult =
     (case databases searchResult ''qdrant'' of None \<Rightarrow> None | Some r \<Rightarrow> db_results r)"

record timestamp_search_result =
  ts_success :: bool
  ts_query :: string
  ts_results :: "search_hit list"
  ts_total :: nat
  freshness_applied :: bool
  ts_decay_factor :: real

definition formatTimestampSearchResult ::
  "aggregate \<Rightarrow> string \<Rightarrow> search_config \<Rightarrow> timestamp_search_result" where
  "formatTimestampSearchResult searchResult query config =
     \<lparr> ts_success = True,
       ts_query = query,
       ts_results = (case qdrant_results searchResult of None \<Rightarrow> [] | Some rs \<Rightarrow> rs),
       ts_total = totalResults (agg_summary searchResult),
       freshness_applied = freshness_boost config,
       ts_decay_factor = decay_factor config \<rparr>"

text \<open>
  \<open>searchWithTimestampPriority\<close>. \<open>searchAll\<close> always answers \<open>success: true\<close> and
  nothing below throws, so the early return and the \<open>catch\<close> are never taken.
\<close>

definition searchWithTimestampPriority ::
  "backends \<Rightarrow> string \<Rightarrow> search_options \<Rightarrow> timestamp_search_result" where
  "searchWithTimestampPriority env query options =
     (let config = parseTimestampSearchOptions options;
          searchResult = searchAll env query (cfg_databases config) (limit config);
          scored = (if freshness_boost config \<and> qdrant_results searchResult \<noteq> None
                    then applyTimestampScoring env searchResult (decay_factor config)
                    else searchResult)
      in formatTimestampSearchResult scored query config)"

section \<open>context-bridge.js: values\<close>

fun truthy_json :: "json \<Rightarrow> bool" where
  "truthy_json JNull = False"
| "truthy_json (JBool b) = b"
| "truthy_json (JNum n) = (n \<noteq> 0)"
| "truthy_json (JStr s) = (s \<noteq> [])"
| "truthy_json (JArr xs) = True"
| "truthy_json (JObj kvs) = True"


text \<open>\<open>v || d\<close>.\<close>

definition js_or :: "json option \<Rightarrow> json \<Rightarrow> json" where
  "js_or v d = (case v of None \<Rightarrow> d | Some j \<Rightarrow> if truthy_json j then j else d)"

text \<open>
  \<open>v.k\<close> for a value other than \<open>null\<close> and \<open>undefined\<close> and a key that is
  neither \<open>length\<close> nor an index: only an object can have it.
\<close>

fun get_prop :: "json \<Rightarrow> string \<Rightarrow> json option" where
  "get_prop (JObj kvs) k = map_of kvs k"
| "get_prop j k = None"





definition ends_with :: "string \<Rightarrow> string \<Rightarrow> bool" where
  "ends_with s suffix = starts_with (rev s) (rev suffix)"

text \<open>\<open>s.replace(pat, rep)\<close> for a string pattern: the first occurrence only.\<close>

fun replace_first :: "string \<Rightarrow> string \<Rightarrow> string \<Rightarrow> string" where
  "replace_first pat rep [] = (if pat = [] then rep else [])"
| "replace_first pat rep (c # s) =
     (if starts_with (c # s) pat then rep @ drop (length pat) (c # s)
      else c # replace_first pat rep s)"

section \<open>Paths\<close>

text \<open>
  \<open>path.join\<close> and \<open>path.normalize\<close> of the POSIX \<open>path\<close> module. A path is
  cut at the slashes; an empty segment and \<open>.\<close> are dropped; \<open>..\<close> removes the
  segment before it, unless there is none or it is \<open>..\<close> itself, and then it is
  kept in a relative path and dropped in an absolute one. \<open>res\<close> is the stack of
  the segments kept so far, the last one first.
\<close>

fun split_on :: "char \<Rightarrow> string \<Rightarrow> string \<Rightarrow> string list" where
  "split_on sep cur [] = [cur]"
| "split_on sep cur (c # cs) =
     (if c = sep then cur # split_on sep [] cs else split_on sep (cur @ [c]) cs)"

fun normalizeString :: "bool \<Rightarrow> string list \<Rightarrow> string list \<Rightarrow> string list" where
  "normalizeString allowAboveRoot res [] = rev res"
| "normalizeString allowAboveRoot res (seg # segs) =
     (if seg = [] \<or> seg = ''.'' then normalizeString allowAboveRoot res segs
      else if seg = ''..''
      then (case res of
              [] \<Rightarrow> normalizeString allowAboveRoot (if allowAboveRoot then [''..''] else []) segs
            | kept # below \<Rightarrow>
                if kept = ''..''
                then normalizeString allowAboveRoot (if allowAboveRoot then ''..'' # res else res) segs
                else normalizeString allowAboveRoot below segs)
      else normalizeString allowAboveRoot (seg # res) segs)"

fun join_segments :: "string list \<Rightarrow> string" where
  "join_segments [] = []"
| "join_segments [seg] = seg"
| "join_segments (seg # next # segs) = seg @ ''/'' @ join_segments (next # segs)"

definition normalize :: "string \<Rightarrow> string" where
  "normalize path =
     (if path = [] then ''.''
      else
        let isAbsolute = (hd path = CHR ''/'');
            trailingSeparator = (last path = CHR ''/'');
            body = join_segments
                     (normalizeString (\<not> isAbsolute) [] (split_on CHR ''/'' [] path))
        in if body = []
           then (if isAbsolute then ''/'' else if trailingSeparator then ''./'' else ''.'')
           else (if isAbsolute then ''/'' else []) @ body
                @ (if trailingSeparator then ''/'' else []))"

text \<open>\<open>path.join(a, b)\<close>: the arguments that are not empty, joined by a slash.\<close>

definition path_join :: "string \<Rightarrow> string \<Rightarrow> string" where
  "path_join a b =
     (let joined = (if a = [] then b else if b = [] then a else a @ ''/'' @ b)
      in if joined = [] then ''.'' else normalize joined)"

section \<open>context-bridge.js: files\<close>

text \<open>
  A file: modification time, size in bytes, and what reading and parsing it gives:
  \<open>Json v\<close> when \<open>JSON.parse\<close> returns \<open>v\<close>, \<open>Not_json\<close> when it throws,
  \<open>Unreadable e\<close> when \<open>stat\<close> or \<open>readFile\<close> throws.
\<close>

datatype file_text = Json json | Not_json | Unreadable js_error

record cache_file =
  mtime :: real
  file_size :: nat
  file_text :: file_text

text \<open>
  The file system that \<open>captureSession\<close> writes and \<open>restoreSession\<close> reads: the
  files by their normalised paths, as \<open>path.join\<close> returns them. Distinct
  normalised paths name distinct files.
\<close>

type_synonym file_system = "(string \<times> cache_file) list"

text \<open>
  The cache directory as \<open>readdir\<close> lists it for \<open>listActiveSessions\<close> and the
  session count: its entries by name, with what \<open>stat\<close> and \<open>readFile\<close> give for
  each; \<open>None\<close> is a directory that cannot be read.
\<close>

type_synonym cache_dir = "(string \<times> cache_file) list option"

text \<open>
  What the bridge reads from its surroundings: the clock (one instant for a call),
  its ISO form, the outcome of \<open>mkdir\<close> and \<open>writeFile\<close> for a file path,
  \<open>JSON.stringify\<close> compact and with indentation 2, \<open>new Date(v).getTime()\<close>
  (\<open>None\<close> for NaN), the hour of the day, the three \<open>Math.random()\<close> draws, and
  \<open>toLowerCase\<close> on texts that are not ASCII.
\<close>

record bridge_env =
  now :: real
  iso_now :: string
  write_error :: "string \<Rightarrow> js_error option"
  stringify :: "json \<Rightarrow> string"
  stringify_pretty :: "json \<Rightarrow> string"
  date_ms :: "json \<Rightarrow> real option"
  hours :: nat
  random_containers :: real
  random_load :: real
  random_relevancy :: real
  lower_nonascii :: "string \<Rightarrow> string"

record bridge_options =
  opt_stateTrackerDir :: "string option"
  opt_sessionTimeout :: "real option"
  opt_maxActiveSessions :: "int option"
  opt_bridgeDecayFactor :: "real option"

record bridge =
  contextCacheDir :: string
  sessionTimeout :: real
  maxActiveSessions :: int
  bridgeDecayFactor :: real

definition BOSSContextBridge :: "bridge_options \<Rightarrow> bridge" where
  "BOSSContextBridge options =
     \<lparr> contextCacheDir =
         path_join (case opt_stateTrackerDir options of
                      None \<Rightarrow> ''/app/rag-state''
                    | Some d \<Rightarrow> if d = [] then ''/app/rag-state'' else d)
           ''context_cache'',
       sessionTimeout = or_default (opt_sessionTimeout options) (30 * 60 * 1000),
       maxActiveSessions = or_default (opt_maxActiveSessions options) 5,
       bridgeDecayFactor = or_default (opt_bridgeDecayFactor options) (1 / 10) \<rparr>"

text \<open>\<open>path.join(this.contextCacheDir, fileName)\<close>.\<close>

definition file_path :: "bridge \<Rightarrow> string \<Rightarrow> string" where
  "file_path this fileName = path_join (contextCacheDir this) fileName"

section \<open>Session store: capture and restore\<close>

datatype capture_result =
    is_Capture_ok: Capture_ok (c_sessionId: string) (c_projectName: "string option") (c_filePath: string)
      (c_size: nat)
  | Capture_fail (c_error: js_error) (c_sessionId: string) (c_projectName: "string option")

text \<open>
  The object that is serialised. A \<open>projectName\<close> that is \<open>undefined\<close> is dropped
  by \<open>JSON.stringify\<close>; \<open>context\<close> and \<open>metadata\<close> default to \<open>{}\<close>.
\<close>

definition sessionData_of ::
  "bridge_env \<Rightarrow> string \<Rightarrow> string option \<Rightarrow> json option \<Rightarrow> json option \<Rightarrow> json" where
  "sessionData_of env sessionId projectName context metadata =
     JObj ([(''sessionId'', JStr sessionId)]
           @ (case projectName of None \<Rightarrow> [] | Some p \<Rightarrow> [(''projectName'', JStr p)])
           @ [(''context'', case context of None \<Rightarrow> JObj [] | Some c \<Rightarrow> c),
              (''metadata'', case metadata of None \<Rightarrow> JObj [] | Some m \<Rightarrow> m),
              (''captureTime'', JStr (iso_now env)),
              (''timestamp'', JNum (now env)),
              (''version'', JStr ''1.0.0'')])"

text \<open>
  \<open>captureSession\<close> returns its answer and the file system after it. The file holds
  \<open>JSON.stringify(sessionData, null, 2)\<close>, which parses back to \<open>sessionData\<close>.
\<close>

definition captureSession ::
  "bridge \<Rightarrow> bridge_env \<Rightarrow> file_system \<Rightarrow> string \<Rightarrow> string option \<Rightarrow> json option \<Rightarrow> json option
   \<Rightarrow> capture_result \<times> file_system" where
  "captureSession this env fs sessionId projectName context metadata =
     (let sessionData = sessionData_of env sessionId projectName context metadata;
          fileName = sessionId @ ''.json'';
          filePath = file_path this fileName
      in case write_error env filePath of
           Some e \<Rightarrow> (Capture_fail e sessionId projectName, fs)
         | None \<Rightarrow>
             (Capture_ok sessionId projectName filePath (length (stringify env sessionData)),
              AList.update filePath
                \<lparr> mtime = now env,
                  file_size = length (stringify_pretty env sessionData),
                  file_text = Json sessionData \<rparr>
                fs))"

datatype restore_result =
    is_Restore_ok: Restore_ok (r_sessionId: string) (r_projectName: "json option") (r_context: "json option")
      (r_metadata: "json option") (r_captureTime: "json option")
  | Restore_fail (r_error: js_error) (r_sessionId: string) (r_argProjectName: "string option")

text \<open>\<open>projectName && ...\<close>: \<open>undefined\<close> and the empty string are falsy.\<close>

definition project_given :: "string option \<Rightarrow> bool" where
  "project_given projectName = (case projectName of None \<Rightarrow> False | Some p \<Rightarrow> p \<noteq> [])"

text \<open>The file at \<open>path.join(this.contextCacheDir, fileName)\<close>, if there is one.\<close>

definition file_at :: "bridge \<Rightarrow> file_system \<Rightarrow> string \<Rightarrow> cache_file option" where
  "file_at this fs fileName = map_of fs (file_path this fileName)"

text \<open>\<open>JSON.parse(await fs.readFile(filePath, 'utf8'))\<close>.\<close>

definition read_session :: "bridge \<Rightarrow> file_system \<Rightarrow> string \<Rightarrow> js_error + json" where
  "read_session this fs fileName =
     (case file_at this fs fileName of
        None \<Rightarrow> Inl (NotFound (file_path this fileName))
      | Some f \<Rightarrow>
          (case file_text f of
             Unreadable e \<Rightarrow> Inl e
           | Not_json \<Rightarrow> Inl SyntaxError
           | Json sessionData \<Rightarrow> Inr sessionData))"

definition restoreSession :: "bridge \<Rightarrow> file_system \<Rightarrow> string \<Rightarrow> string option \<Rightarrow> restore_result" where
  "restoreSession this fs sessionId projectName =
     (case read_session this fs (sessionId @ ''.json'') of
        Inl e \<Rightarrow> Restore_fail e sessionId projectName
      | Inr sessionData \<Rightarrow>
          if sessionData = JNull then Restore_fail (TypeError ''projectName'') sessionId projectName
          else if project_given projectName
                  \<and> get_prop sessionData ''projectName'' \<noteq> map_option JStr projectName
          then Restore_fail
                 (ProjectMismatch (case projectName of None \<Rightarrow> [] | Some p \<Rightarrow> p)
                    (get_prop sessionData ''projectName''))
                 sessionId projectName
          else Restore_ok sessionId (get_prop sessionData ''projectName'')
                 (get_prop sessionData ''context'') (get_prop sessionData ''metadata'')
                 (get_prop sessionData ''captureTime''))"

section \<open>Session store: listing\<close>

text \<open>The file of that name in the listed cache directory, if there is one.\<close>

definition stored_file :: "cache_dir \<Rightarrow> string \<Rightarrow> cache_file option" where
  "stored_file fs fileName = (case fs of None \<Rightarrow> None | Some files \<Rightarrow> map_of files fileName)"

definition bridge_calculateRelevance :: "real \<Rightarrow> real \<Rightarrow> real \<Rightarrow> real \<Rightarrow> real" where
  "bridge_calculateRelevance current semanticScore timestamp decayFactor =
     (let daysSinceUpdate = (current - timestamp) / (1000 * 60 * 60 * 24);
          freshnessPenalty = exp (- decayFactor * daysSinceUpdate)
      in semanticScore * freshnessPenalty)"

record session_entry =
  se_sessionId :: json
  se_projectName :: "json option"
  lastAccessed :: real
  se_size :: nat
  relevanceScore :: real

text \<open>
  The body of the inner \<open>try\<close>: \<open>None\<close> when the file is skipped, because it is
  empty, or cannot be read or parsed, or holds \<open>null\<close>.
\<close>

definition session_of_file :: "bridge \<Rightarrow> real \<Rightarrow> string \<Rightarrow> cache_file \<Rightarrow> session_entry option" where
  "session_of_file this current fileName f =
     (if file_size f = 0 then None
      else case file_text f of
             Unreadable e \<Rightarrow> None
           | Not_json \<Rightarrow> None
           | Json sessionData \<Rightarrow>
               if sessionData = JNull then None
               else Some \<lparr> se_sessionId = js_or (get_prop sessionData ''sessionId'')
                                           (JStr (replace_first ''.json'' [] fileName)),
                           se_projectName = get_prop sessionData ''projectName'',
                           lastAccessed = mtime f,
                           se_size = file_size f,
                           relevanceScore =
                             bridge_calculateRelevance current 1 (mtime f) (bridgeDecayFactor this) \<rparr>)"

text \<open>\<open>!projectName || file.includes(projectName)\<close>.\<close>

definition name_passes :: "string option \<Rightarrow> string \<Rightarrow> bool" where
  "name_passes projectName fileName =
     (case projectName of
        None \<Rightarrow> True
      | Some p \<Rightarrow> if p = [] then True else str_includes fileName p)"

fun collect_sessions ::
  "bridge \<Rightarrow> real \<Rightarrow> string option \<Rightarrow> (string \<times> cache_file) list \<Rightarrow> session_entry list \<Rightarrow> session_entry list" where
  "collect_sessions this current projectName [] sessions = sessions"
| "collect_sessions this current projectName (entry # contextFiles) sessions =
     (if ends_with (fst entry) ''.json'' \<and> name_passes projectName (fst entry)
      then (case session_of_file this current (fst entry) (snd entry) of
              None \<Rightarrow> collect_sessions this current projectName contextFiles sessions
            | Some s \<Rightarrow> collect_sessions this current projectName contextFiles (sessions @ [s]))
      else collect_sessions this current projectName contextFiles sessions)"

datatype list_result =
    List_ok (l_sessions: "session_entry list") (l_total: nat)
  | List_fail (l_error: js_error)

definition listActiveSessions :: "bridge \<Rightarrow> real \<Rightarrow> cache_dir \<Rightarrow> string option \<Rightarrow> list_result" where
  "listActiveSessions this current fs projectName =
     (case fs of
        None \<Rightarrow> List_fail (NotFound (contextCacheDir this))
      | Some contextFiles \<Rightarrow>
          let sessions = sort_desc relevanceScore
                           (collect_sessions this current projectName contextFiles [])
          in List_ok (slice0 (maxActiveSessions this) sessions) (length sessions))"

section \<open>Context pipeline: live-signal injection\<close>










section \<open>Context pipeline: the helper stages\<close>












section \<open>Context pipeline: processQueryWithRealTimeData\<close>





section \<open>Concrete surroundings for the evaluations\<close>

definition env_fixed :: bridge_env where
  "env_fixed =
     \<lparr> now = 0, iso_now = ''1970-01-01T00:00:00.000Z'', write_error = (\<lambda>name. None),
       stringify = (\<lambda>v. ''{}''), stringify_pretty = (\<lambda>v. ''{}''), date_ms = (\<lambda>v. None),
       hours = 12, random_containers = 0, random_load = 0, random_relevancy = 1 / 2,
       lower_nonascii = (\<lambda>s. s) \<rparr>"

definition bridge_default :: bridge where
  "bridge_default =
     BOSSContextBridge \<lparr> opt_stateTrackerDir = None, opt_sessionTimeout = None,
                         opt_maxActiveSessions = None, opt_bridgeDecayFactor = None \<rparr>"

definition engine_default :: engine where
  "engine_default =
     MultiDatabaseSearch \<lparr> opt_freshnessDecayFactor = None, opt_maxActiveResults = None,
                           opt_latestPriorityHours = None \<rparr>"

text \<open>
  Two points in the first collection, the first created at instant 0 and the second
  without a timestamp, one message in the document store, and a clock that reads one
  day after instant 0.
\<close>

definition point_old :: point where
  "point_old =
     \<lparr> point_id = ''old'',
       point_payload = Some \<lparr> content = Some ''boss rag'', created_at = Date_ms 0,
                              upload_timestamp = No_timestamp \<rparr> \<rparr>"

definition point_undated :: point where
  "point_undated =
     \<lparr> point_id = ''undated'',
       point_payload = Some \<lparr> content = Some ''boss'', created_at = No_timestamp,
                              upload_timestamp = No_timestamp \<rparr> \<rparr>"

definition doc_sample :: mongo_doc where
  "doc_sample = \<lparr> doc_id = ''m1'', doc_content = ''boss'', doc_from = ''a'', doc_to = ''b'' \<rparr>"

definition scroll_sample :: "string \<Rightarrow> string \<Rightarrow> int \<Rightarrow> js_error + point list" where
  "scroll_sample query coll n =
     (if coll = ''boss-lessons-learned'' then Inr [point_old, point_undated] else Inr [])"

definition env_sample :: backends where
  "env_sample =
     \<lparr> scroll = scroll_sample, regex = rx_reject,
       mongo_find = (\<lambda>query n. Inr [doc_sample]), clock = 86400000,
       sort_order = (\<lambda>results. results) \<rparr>"

text \<open>The same with an unreachable Qdrant.\<close>

definition scroll_down :: "string \<Rightarrow> string \<Rightarrow> int \<Rightarrow> js_error + point list" where
  "scroll_down query coll n = Inl (BackendError ''fetch failed'')"

definition env_qdrant_down :: backends where
  "env_qdrant_down =
     \<lparr> scroll = scroll_down, regex = rx_reject,
       mongo_find = (\<lambda>query n. Inr [doc_sample]), clock = 86400000,
       sort_order = (\<lambda>results. results) \<rparr>"

text \<open>Both backends unreachable.\<close>

definition env_all_down :: backends where
  "env_all_down =
     \<lparr> scroll = scroll_down, regex = rx_reject,
       mongo_find = (\<lambda>query n. Inl (BackendError ''connect failed'')), clock = 86400000,
       sort_order = (\<lambda>results. results) \<rparr>"




definition hit_old :: search_hit where
  "hit_old =
     \<lparr> hit_id = ''old'',
       hit_payload = Some \<lparr> content = Some ''boss rag'', created_at = Date_ms 0,
                            upload_timestamp = No_timestamp \<rparr>,
       hit_collection = ''boss-lessons-learned'', hit_score = 2,
       enhanced_score = None, timestamp_boost = None \<rparr>"

definition hit_undated :: search_hit where
  "hit_undated =
     \<lparr> hit_id = ''undated'',
       hit_payload = Some \<lparr> content = Some ''boss'', created_at = No_timestamp,
                            upload_timestamp = No_timestamp \<rparr>,
       hit_collection = ''boss-lessons-learned'', hit_score = 2,
       enhanced_score = None, timestamp_boost = None \<rparr>"



definition options_zero_decay :: search_options where
  "options_zero_decay =
     \<lparr> opt_limit = None, opt_freshness_boost = None, opt_decay_factor = Some 0,
       opt_databases = None \<rparr>"

definition engine_options_zero_decay :: engine_options where
  "engine_options_zero_decay =
     \<lparr> opt_freshnessDecayFactor = Some 0, opt_maxActiveResults = None,
       opt_latestPriorityHours = None \<rparr>"

text \<open>
  A file system with the session \<open>s1\<close> of the project \<open>p1\<close> in the default cache
  directory, as \<open>captureSession\<close> writes it.
\<close>

definition context_sample :: json where
  "context_sample = JObj [(''k'', JNum 1)]"

definition file_s1 :: cache_file where
  "file_s1 =
     \<lparr> mtime = 0, file_size = 2,
       file_text = Json (sessionData_of env_fixed ''s1'' (Some ''p1'')
                           (Some context_sample) None) \<rparr>"

definition fs_s1 :: file_system where
  "fs_s1 = [(''/app/rag-state/context_cache/s1.json'', file_s1)]"

text \<open>
  A directory with two sessions: the file name of the first holds \<open>alpha\<close> and its
  stored project is \<open>beta\<close>; the stored project of the second is \<open>alpha\<close> and its
  file name does not hold that string.
\<close>

definition file_alpha_1 :: cache_file where
  "file_alpha_1 =
     \<lparr> mtime = 0, file_size = 2,
       file_text = Json (sessionData_of env_fixed ''alpha-1'' (Some ''beta'') None None) \<rparr>"

definition file_gamma :: cache_file where
  "file_gamma =
     \<lparr> mtime = 0, file_size = 2,
       file_text = Json (sessionData_of env_fixed ''gamma'' (Some ''alpha'') None None) \<rparr>"

definition files_mixed :: "(string \<times> cache_file) list" where
  "files_mixed = [(''alpha-1.json'', file_alpha_1), (''gamma.json'', file_gamma)]"

text \<open>
  Two sessions whose file names hold \<open>alpha\<close>, and a bridge that lists one session.
\<close>

definition file_alpha_2 :: cache_file where
  "file_alpha_2 =
     \<lparr> mtime = 0, file_size = 2,
       file_text = Json (sessionData_of env_fixed ''alpha-2'' (Some ''beta'') None None) \<rparr>"

definition files_two :: "(string \<times> cache_file) list" where
  "files_two = [(''alpha-1.json'', file_alpha_1), (''alpha-2.json'', file_alpha_2)]"

definition bridge_one :: bridge where
  "bridge_one =
     BOSSContextBridge \<lparr> opt_stateTrackerDir = None, opt_sessionTimeout = None,
                         opt_maxActiveSessions = Some 1, opt_bridgeDecayFactor = None \<rparr>"

section \<open>Arrays: sorting and slicing\<close>

lemma sort_desc_props:
  "mset (sort_desc key xs) = mset xs"
  "set (sort_desc key xs) = set xs"
  "length (sort_desc key xs) = length xs"
  "sorted_wrt (\<lambda>a b. key b \<le> key a) (sort_desc key xs)"
proof -
  have "sorted (map (\<lambda>x. - key x) (sort_key (\<lambda>x. - key x) xs))"
    by (rule sorted_sort_key)
  then show "sorted_wrt (\<lambda>a b. key b \<le> key a) (sort_desc key xs)"
    by (simp add: sort_desc_def sorted_map)
qed (simp_all add: sort_desc_def)


lemma slice0_all:
  "int (length xs) \<le> n \<Longrightarrow> slice0 n xs = xs"
  by (simp add: slice0_def)

lemma set_map_filter:
  "set (List.map_filter f xs) = {y. \<exists>x \<in> set xs. f x = Some y}"
  by (induction xs) (auto split: option.splits)

lemma length_map_filter:
  "length (List.map_filter f xs) \<le> length xs"
  by (induction xs) (auto split: option.splits)

section \<open>The term-overlap heuristic\<close>

lemma ascii_lower_letters: "ascii ''abcdefghijklmnopqrstuvwxyz''"
  by code_simp

lemma ascii_toLowerCase_char:
  assumes "(of_char c :: nat) < 128"
  shows "(of_char (toLowerCase_char c) :: nat) < 128"
proof (cases "map_of (zip ''ABCDEFGHIJKLMNOPQRSTUVWXYZ'' ''abcdefghijklmnopqrstuvwxyz'') c")
  case None
  then show ?thesis using assms by (simp add: toLowerCase_char_def)
next
  case (Some d)
  then have "(c, d) \<in> set (zip ''ABCDEFGHIJKLMNOPQRSTUVWXYZ'' ''abcdefghijklmnopqrstuvwxyz'')"
    by (rule map_of_SomeD)
  then have "d \<in> set ''abcdefghijklmnopqrstuvwxyz''"
    by (rule set_zip_rightD)
  then have "(of_char d :: nat) < 128"
    using ascii_lower_letters unfolding ascii_def list_all_iff by blast
  then show ?thesis using Some by (simp add: toLowerCase_char_def)
qed

lemma ascii_toLowerCase: "ascii s \<Longrightarrow> ascii (toLowerCase s)"
  by (simp add: ascii_def toLowerCase_def list_all_iff ascii_toLowerCase_char)

lemma split_ws_from_chars:
  "w \<in> set (split_ws_from in_sep cur s) \<Longrightarrow> set w \<subseteq> set cur \<union> set s"
proof (induction s arbitrary: in_sep cur)
  case Nil
  then show ?case by simp
next
  case (Cons c cs)
  show ?case
  proof (cases "is_space c")
    case True
    then show ?thesis
      using Cons.prems Cons.IH [of True cur] Cons.IH [of True "[]"]
      by (cases in_sep) auto
  next
    case False
    then show ?thesis
      using Cons.prems Cons.IH [of False "cur @ [c]"] by auto
  qed
qed

lemma ascii_split_ws: "ascii s \<Longrightarrow> list_all ascii (split_ws s)"
  unfolding list_all_iff ascii_def split_ws_def
  using split_ws_from_chars [of _ False "[]" s] by fastforce

lemma lower_case_ascii: "ascii s \<Longrightarrow> lower_case other s = toLowerCase s"
  by (simp add: lower_case_def)

lemma split_white_ascii: "ascii s \<Longrightarrow> split_white other s = split_ws s"
  by (simp add: split_white_def)

lemma score_word_literal:
  assumes "ascii w" and "ascii cl" and "\<not> list_ex regex_meta w"
  shows "score_word rx cl (Inr (s, k)) w =
         (if 2 < length w
          then Inr (s + 2 * real (count_matches w 0 None cl),
                    if 0 < count_matches w 0 None cl then k + 1 else k)
          else Inr (s, k))"
  using assms by (simp add: score_word_def match_count_def SCORE_MULTIPLIER_def)

text \<open>What the loop over the query words leaves in \<open>score\<close> and \<open>exactMatches\<close>.\<close>

lemma foldl_score_word:
  assumes "list_all ascii ws" and "ascii cl" and "\<not> list_ex (list_ex regex_meta) ws"
  shows "foldl (score_word rx cl) (Inr (s, k)) ws =
         Inr (s + 2 * real (sum_list (map (\<lambda>w. count_matches w 0 None cl)
                                         (filter (\<lambda>w. \<not> length w \<le> 2) ws))),
              k + length (filter (\<lambda>w. 0 < count_matches w 0 None cl)
                                 (filter (\<lambda>w. \<not> length w \<le> 2) ws)))"
  using assms(1,3)
proof (induction ws arbitrary: s k)
  case Nil
  then show ?case by simp
next
  case (Cons w ws)
  from Cons.prems have asc: "ascii w" and lit: "\<not> list_ex regex_meta w"
    and rest: "list_all ascii ws" "\<not> list_ex (list_ex regex_meta) ws"
    by simp_all
  note step = score_word_literal [OF asc assms(2) lit]
  show ?case
  proof (cases "2 < length w")
    case True
    then show ?thesis
      using Cons.IH [OF rest] by (simp add: step algebra_simps)
  next
    case False
    then show ?thesis
      using Cons.IH [OF rest] by (simp add: step)
  qed
qed

text \<open>The surviving tokens are the fields of the split query that are long enough.\<close>

lemma spec_tokens_fields:
  "spec_tokens query = filter (\<lambda>w. \<not> length w \<le> 2) (split_ws (toLowerCase query))"
proof -
  have "(\<lambda>w. w \<noteq> [] \<and> \<not> length w \<le> 2) = (\<lambda>w :: string. \<not> length w \<le> 2)"
    by auto
  then show ?thesis
    by (simp add: spec_tokens_def spec_query_tokens_def)
qed

lemma count_matches_empty_content:
  "w \<noteq> [] \<Longrightarrow> count_matches w skip p [] = 0"
  by (cases w) (simp_all add: match_here_def)

lemma spec_textScore_amended_empty:
  assumes "body = []"
  shows "spec_textScore_amended query body = 0"
proof -
  have occ: "\<And>w. w \<in> set (spec_tokens query) \<Longrightarrow> spec_occurrences body w = 0"
  proof -
    fix w assume "w \<in> set (spec_tokens query)"
    then have "w \<noteq> []" by (auto simp: spec_tokens_def)
    then have "count_matches w 0 None [] = 0"
      by (rule count_matches_empty_content)
    then show "spec_occurrences body w = 0"
      using assms by (simp only: spec_occurrences_def toLowerCase_def list.map)
  qed
  have sum0: "sum_list (map (spec_occurrences body) (spec_tokens query)) = 0"
    using occ by simp
  have filt: "filter (\<lambda>w. 0 < spec_occurrences body w) (spec_tokens query) = []"
    using occ by (simp add: filter_empty_conv)
  have phr: "amended_phrase_bonus query body = 0"
    using assms by (auto simp: amended_phrase_bonus_def toLowerCase_def split_ws_def)
  show ?thesis
    unfolding spec_textScore_amended_def Let_def sum0 filt phr
    by (simp add: spec_multi_bonus_def)
qed

lemma calculateTextScore_amended:
  assumes "ascii query" and "ascii body"
    and "\<not> list_ex (list_ex regex_meta) (split_ws (toLowerCase query))"
  shows "calculateTextScore rx query body = Inr (spec_textScore_amended query body)"
proof (cases "body = []")
  case True
  then show ?thesis
    using spec_textScore_amended_empty [OF True, of query] by (simp add: calculateTextScore_def)
next
  case False
  have ql: "lower_case (lower_other rx) query = toLowerCase query"
    using assms(1) by (rule lower_case_ascii)
  have bl: "lower_case (lower_other rx) body = toLowerCase body"
    using assms(2) by (rule lower_case_ascii)
  have qa: "ascii (toLowerCase query)"
    using assms(1) by (rule ascii_toLowerCase)
  have ba: "ascii (toLowerCase body)"
    using assms(2) by (rule ascii_toLowerCase)
  have qw: "split_white (split_other rx) (toLowerCase query) = split_ws (toLowerCase query)"
    using qa by (rule split_white_ascii)
  have wa: "list_all ascii (split_ws (toLowerCase query))"
    using qa by (rule ascii_split_ws)
  show ?thesis
    using False foldl_score_word [OF wa ba assms(3), of rx 0 0]
    by (simp add: calculateTextScore_def ql bl qw spec_textScore_amended_def Let_def
        spec_tokens_fields spec_occurrences_def [abs_def] spec_multi_bonus_def
        amended_phrase_bonus_def MULTI_MATCH_BONUS_def PHRASE_MATCH_BONUS_def)
qed

text \<open>
  Where the query repeats no token and has no white space before its first or after
  its last token, the two amendments change nothing.
\<close>

lemma spec_textScore_amended_same:
  assumes "distinct (spec_tokens query)" and "[] \<notin> set (split_ws (toLowerCase query))"
  shows "spec_textScore_amended query body = spec_textScore query body"
proof -
  have "filter (\<lambda>w. w \<noteq> []) (split_ws (toLowerCase query)) = split_ws (toLowerCase query)"
    using assms(2) by (auto simp: filter_id_conv)
  then have fields: "spec_query_tokens query = split_ws (toLowerCase query)"
    by (simp add: spec_query_tokens_def)
  have "distinct (filter (\<lambda>w. 0 < spec_occurrences body w) (spec_tokens query))"
    using assms(1) by simp
  then have matched: "remdups (filter (\<lambda>w. 0 < spec_occurrences body w) (spec_tokens query))
                 = filter (\<lambda>w. 0 < spec_occurrences body w) (spec_tokens query)"
    by (rule distinct_remdups_id)
  show ?thesis
    by (simp add: spec_textScore_amended_def spec_textScore_def Let_def matched
        amended_phrase_bonus_def spec_phrase_bonus_def fields)
qed

lemma calculateTextScore_boss_rag:
  "calculateTextScore rx ''boss rag'' ''BOSS RAG system is enterprise grade'' = Inr 17"
  by code_simp

text \<open>
  C8, as amended. For an ASCII query and content, when no token of the query holds a
  regular-expression metacharacter, \<open>calculateTextScore\<close> computes the specified
  heuristic with two amendments: the multi-match bonus is 1.5 for each matched token
  of the query, repeated tokens counted as often as they occur, and the phrase bonus
  asks for more than one field of the query split at white space, the empty field
  before leading and after trailing white space included. Where the query repeats no
  token and has no such white space, that is the heuristic as specified. For the
  query \<open>boss rag\<close> and the content \<open>BOSS RAG system is enterprise grade\<close> the code
  returns exactly 17.
\<close>

theorem calculateTextScore_follows_spec:
  "(ascii query \<and> ascii body
      \<and> \<not> list_ex (list_ex regex_meta) (split_ws (toLowerCase query))
      \<longrightarrow> calculateTextScore rx query body = Inr (spec_textScore_amended query body))
   \<and> (distinct (spec_tokens query) \<and> [] \<notin> set (split_ws (toLowerCase query))
      \<longrightarrow> spec_textScore_amended query body = spec_textScore query body)
   \<and> calculateTextScore rx ''boss rag'' ''BOSS RAG system is enterprise grade'' = Inr 17"
  using calculateTextScore_amended [of query body rx]
    spec_textScore_amended_same [of query body] calculateTextScore_boss_rag [of rx]
  by blast

text \<open>
  The theorem at the query \<open>boss rag\<close> and the content of the specification, where
  the code and the heuristic as specified agree on 17, and at the query \<open>boss boss\<close>
  and the content \<open>boss\<close>, where the code and the amended heuristic agree on 7.
\<close>

theorem calculateTextScore_follows_spec_witness:
  "ascii ''boss rag'' \<and> ascii ''BOSS RAG system is enterprise grade''
   \<and> \<not> list_ex (list_ex regex_meta) (split_ws (toLowerCase ''boss rag''))
   \<and> distinct (spec_tokens ''boss rag'') \<and> [] \<notin> set (split_ws (toLowerCase ''boss rag''))
   \<and> calculateTextScore rx_reject ''boss rag'' ''BOSS RAG system is enterprise grade''
       = Inr (spec_textScore ''boss rag'' ''BOSS RAG system is enterprise grade'')
   \<and> spec_textScore ''boss rag'' ''BOSS RAG system is enterprise grade'' = 17
   \<and> ascii ''boss boss'' \<and> ascii ''boss''
   \<and> \<not> list_ex (list_ex regex_meta) (split_ws (toLowerCase ''boss boss''))
   \<and> calculateTextScore rx_reject ''boss boss'' ''boss'' = Inr 7"
proof -
  have a1: "ascii ''boss rag''" and a2: "ascii ''BOSS RAG system is enterprise grade''"
    and a3: "ascii ''boss boss''" and a4: "ascii ''boss''"
    by code_simp+
  have m1: "\<not> list_ex (list_ex regex_meta) (split_ws (toLowerCase ''boss rag''))"
    by code_simp
  have m2: "\<not> list_ex (list_ex regex_meta) (split_ws (toLowerCase ''boss boss''))"
    by code_simp
  have d: "distinct (spec_tokens ''boss rag'')"
    by code_simp
  have e: "[] \<notin> set (split_ws (toLowerCase ''boss rag''))"
    by code_simp
  have v1: "spec_textScore ''boss rag'' ''BOSS RAG system is enterprise grade'' = 17"
    by code_simp
  have v2: "spec_textScore_amended ''boss boss'' ''boss'' = 7"
    by code_simp
  have one: "calculateTextScore rx_reject ''boss rag'' ''BOSS RAG system is enterprise grade''
       = Inr (spec_textScore ''boss rag'' ''BOSS RAG system is enterprise grade'')"
    using calculateTextScore_follows_spec
      [of "''boss rag''" "''BOSS RAG system is enterprise grade''" rx_reject] a1 a2 m1 d e
    by simp
  have two: "calculateTextScore rx_reject ''boss boss'' ''boss'' = Inr 7"
    using calculateTextScore_follows_spec [of "''boss boss''" "''boss''" rx_reject] a3 a4 m2 v2
    by simp
  from a1 a2 m1 d e one v1 a3 a4 m2 two show ?thesis by blast
qed

text \<open>
  C8 as stated fails in two places. Where the query repeats a token: for
  \<open>boss boss\<close> and the content \<open>boss\<close> one distinct token matches, so the
  specified score is 4 with no multi-match bonus, and the code returns 7. Where white
  space follows the last token: the query \<open>boss \<close> has one token, so the specified
  score on the content \<open>boss rag\<close> is 2 with no phrase bonus, and the code returns
  12.
\<close>

theorem calculateTextScore_distinct_counterexample:
  "calculateTextScore rx_reject ''boss boss'' ''boss'' = Inr 7
   \<and> spec_textScore ''boss boss'' ''boss'' = 4
   \<and> calculateTextScore rx_reject ''boss '' ''boss rag'' = Inr 12
   \<and> spec_textScore ''boss '' ''boss rag'' = 2"
  by code_simp

section \<open>The freshness scorer\<close>

lemma decay_le_one:
  fixes k a :: real
  assumes "0 \<le> k" and "0 \<le> a"
  shows "exp (- k * a) \<le> 1"
proof -
  have "0 \<le> k * a" using assms by (rule mult_nonneg_nonneg)
  then have "exp (- (k * a)) \<le> 1" by simp
  then show ?thesis by simp
qed

text \<open>
  C2, as amended. Neither \<open>calculateRelevance\<close> clamps the age. For a timestamp that
  is not in the future, a decay factor that is not negative, and a base score and a
  boost that are not negative, the score of the search engine is at most
  \<open>baseScore \<times> boost \<times> PRIORITY_BOOST_MULTIPLIER\<close>, and that of the context bridge,
  which has no boost, at most the base score.
\<close>

theorem calculateRelevance_bounded:
  assumes "timestamp \<le> current" and "0 \<le> freshnessDecayFactor this" and "0 \<le> d"
    and "0 \<le> semanticScore" and "0 \<le> boost"
  shows "calculateRelevance this current semanticScore timestamp boost
           \<le> semanticScore * (boost * PRIORITY_BOOST_MULTIPLIER)
         \<and> bridge_calculateRelevance current semanticScore timestamp d \<le> semanticScore"
proof -
  define ageDays where "ageDays = (current - timestamp) / MS_PER_HOUR / HOURS_IN_DAY"
  define finalBoost where "finalBoost =
    (if (current - timestamp) / MS_PER_HOUR \<le> latestPriorityHours this
     then boost * PRIORITY_BOOST_MULTIPLIER else boost)"
  have age: "0 \<le> ageDays"
    using assms(1) by (simp add: ageDays_def MS_PER_HOUR_def HOURS_IN_DAY_def)
  have pen: "exp (- freshnessDecayFactor this * ageDays) \<le> 1"
    using assms(2) age by (rule decay_le_one)
  have fb: "finalBoost \<le> boost * PRIORITY_BOOST_MULTIPLIER"
    using assms(5) by (simp add: finalBoost_def PRIORITY_BOOST_MULTIPLIER_def)
  have fb0: "0 \<le> finalBoost"
    using assms(5) by (simp add: finalBoost_def PRIORITY_BOOST_MULTIPLIER_def)
  have "semanticScore * exp (- freshnessDecayFactor this * ageDays) \<le> semanticScore * 1"
    using pen assms(4) by (rule mult_left_mono)
  then have "semanticScore * exp (- freshnessDecayFactor this * ageDays) * finalBoost
               \<le> semanticScore * (boost * PRIORITY_BOOST_MULTIPLIER)"
    using fb fb0 assms(4) by (intro mult_mono) simp_all
  moreover have "calculateRelevance this current semanticScore timestamp boost
                   = semanticScore * exp (- freshnessDecayFactor this * ageDays) * finalBoost"
    by (simp add: calculateRelevance_def Let_def ageDays_def finalBoost_def)
  ultimately have one: "calculateRelevance this current semanticScore timestamp boost
           \<le> semanticScore * (boost * PRIORITY_BOOST_MULTIPLIER)"
    by simp
  have age2: "0 \<le> (current - timestamp) / (1000 * 60 * 60 * 24)"
    using assms(1) by simp
  have "exp (- d * ((current - timestamp) / (1000 * 60 * 60 * 24))) \<le> 1"
    using assms(3) age2 by (rule decay_le_one)
  then have "semanticScore * exp (- d * ((current - timestamp) / (1000 * 60 * 60 * 24)))
          \<le> semanticScore * 1"
    using assms(4) by (rule mult_left_mono)
  then have two: "bridge_calculateRelevance current semanticScore timestamp d \<le> semanticScore"
    by (simp add: bridge_calculateRelevance_def)
  from one two show ?thesis ..
qed

text \<open>The theorem for a timestamp one day in the past.\<close>

theorem calculateRelevance_bounded_witness:
  "(0::real) \<le> 86400000 \<and> 0 \<le> freshnessDecayFactor engine_default
   \<and> calculateRelevance engine_default 86400000 1 0 1 \<le> 1 * (1 * PRIORITY_BOOST_MULTIPLIER)
   \<and> bridge_calculateRelevance 86400000 1 0 (1 / 10) \<le> 1"
proof -
  have h1: "(0::real) \<le> 86400000" by simp
  have h2: "0 \<le> freshnessDecayFactor engine_default"
    by (simp add: engine_default_def MultiDatabaseSearch_def or_default_def DEFAULT_DECAY_FACTOR_def)
  have h3: "(0::real) \<le> 1 / 10" by simp
  have h4: "(0::real) \<le> 1" by simp
  show ?thesis
    using calculateRelevance_bounded [OF h1 h2 h3 h4 h4] h1 h2 by simp
qed

text \<open>
  C2 as stated fails for a timestamp one day in the future: the age is negative and
  is not clamped, so with the default decay factor the score of a base score 1 with
  boost 1 exceeds \<open>PRIORITY_BOOST_MULTIPLIER\<close>.
\<close>

theorem calculateRelevance_future_counterexample:
  "\<not> calculateRelevance engine_default 0 1 86400000 1 \<le> 1 * (1 * PRIORITY_BOOST_MULTIPLIER)"
  by (simp add: calculateRelevance_def engine_default_def MultiDatabaseSearch_def or_default_def
      MS_PER_HOUR_def HOURS_IN_DAY_def PRIORITY_BOOST_MULTIPLIER_def DEFAULT_DECAY_FACTOR_def
      DEFAULT_PRIORITY_HOURS_def DEFAULT_LIMIT_def)

section \<open>The search aggregator\<close>

text \<open>The two tags differ, so every backend answer is kept under its own tag.\<close>

lemma databases_searchAll:
  "databases (searchAll env query dbs n) = map_of (createSearchPromises env query dbs n)"
  by (rule ext) (simp add: searchAll_def formatSearchResults_def createSearchPromises_def)

lemma searchAll_all_down:
  "createSearchPromises env_all_down ''boss'' [''qdrant'', ''mongodb''] 10
     = [(''qdrant'', Qdrant_fail (BackendError ''fetch failed'')),
        (''admin'', Mongo_fail (BackendError ''connect failed''))]"
  by code_simp

text \<open>
  C9. The envelope of \<open>searchAll\<close> has \<open>success = true\<close> for every query and every
  list of requested backends, whatever the backends answer. The answer of every
  backend call is stored under its tag in \<open>databases\<close>, with its own \<open>success\<close>
  flag; \<open>totalSources\<close> counts the backend calls and \<open>successfulSources\<close> those
  whose flag is set, which is 0 when every call fails.
\<close>

theorem searchAll_success_always:
  "agg_success (searchAll env query dbs n)
   \<and> databases (searchAll env query dbs n) = map_of (createSearchPromises env query dbs n)
   \<and> totalSources (agg_summary (searchAll env query dbs n))
       = length (createSearchPromises env query dbs n)
   \<and> successfulSources (agg_summary (searchAll env query dbs n))
       = length (filter (\<lambda>r. db_success (snd r)) (createSearchPromises env query dbs n))
   \<and> (list_all (\<lambda>r. \<not> db_success (snd r)) (createSearchPromises env query dbs n)
      \<longrightarrow> agg_success (searchAll env query dbs n)
          \<and> successfulSources (agg_summary (searchAll env query dbs n)) = 0)"
proof -
  have "length (filter (\<lambda>r. db_success (snd r)) (createSearchPromises env query dbs n)) = 0"
    if "list_all (\<lambda>r. \<not> db_success (snd r)) (createSearchPromises env query dbs n)"
    using that by (simp add: list_all_iff filter_empty_conv)
  then show ?thesis
    using databases_searchAll [of env query dbs n]
    by (simp add: searchAll_def formatSearchResults_def)
qed

text \<open>
  The theorem with both backends unreachable: the envelope still has
  \<open>success = true\<close>, no source is successful, and each failure is stored under its
  tag.
\<close>

theorem searchAll_success_always_witness:
  "list_all (\<lambda>r. \<not> db_success (snd r))
     (createSearchPromises env_all_down ''boss'' [''qdrant'', ''mongodb''] 10)
   \<and> agg_success (searchAll env_all_down ''boss'' [''qdrant'', ''mongodb''] 10)
   \<and> totalSources (agg_summary (searchAll env_all_down ''boss'' [''qdrant'', ''mongodb''] 10)) = 2
   \<and> successfulSources (agg_summary (searchAll env_all_down ''boss'' [''qdrant'', ''mongodb''] 10)) = 0
   \<and> databases (searchAll env_all_down ''boss'' [''qdrant'', ''mongodb''] 10) ''qdrant''
       = Some (Qdrant_fail (BackendError ''fetch failed''))
   \<and> databases (searchAll env_all_down ''boss'' [''qdrant'', ''mongodb''] 10) ''admin''
       = Some (Mongo_fail (BackendError ''connect failed''))"
proof -
  have h: "list_all (\<lambda>r. \<not> db_success (snd r))
     (createSearchPromises env_all_down ''boss'' [''qdrant'', ''mongodb''] 10)"
    by (simp add: searchAll_all_down)
  show ?thesis
    using searchAll_success_always [of env_all_down "''boss''" "[''qdrant'', ''mongodb'']" 10] h
    by (simp add: searchAll_all_down)
qed

lemma searchVectors_down:
  "searchVectors env_qdrant_down ''boss'' 10 = Qdrant_fail (BackendError ''fetch failed'')"
  by code_simp

lemma searchDocuments_down:
  "searchDocuments env_qdrant_down ''boss'' 10 = Mongo_ok 1 [doc_sample]"
  by code_simp

lemma createSearchPromises_both:
  assumes "''qdrant'' \<in> set dbs" and "''mongodb'' \<in> set dbs \<or> ''admin'' \<in> set dbs"
  shows "createSearchPromises env query dbs n =
           [(''qdrant'', searchVectors env query n), (''admin'', searchDocuments env query n)]"
  using assms by (simp add: createSearchPromises_def)

text \<open>
  C7. When both backends are requested and exactly one of them succeeds,
  \<open>searchAll\<close> reports \<open>totalSources = 2\<close> and \<open>successfulSources = 1\<close>, and the
  answer of each backend, so that of the succeeding one with its results, is stored
  unchanged under the key of its backend tag.
\<close>

theorem searchAll_one_backend_failing:
  assumes "''qdrant'' \<in> set dbs" and "''mongodb'' \<in> set dbs \<or> ''admin'' \<in> set dbs"
    and "db_success (searchVectors env query n) \<noteq> db_success (searchDocuments env query n)"
  shows "totalSources (agg_summary (searchAll env query dbs n)) = 2
         \<and> successfulSources (agg_summary (searchAll env query dbs n)) = 1
         \<and> databases (searchAll env query dbs n) ''qdrant'' = Some (searchVectors env query n)
         \<and> databases (searchAll env query dbs n) ''admin'' = Some (searchDocuments env query n)"
  using assms(3) createSearchPromises_both [OF assms(1,2), of env query n]
  by (auto simp: searchAll_def formatSearchResults_def)

text \<open>
  The theorem with Qdrant unreachable and one message found in the document store.
\<close>

theorem searchAll_one_backend_failing_witness:
  "''qdrant'' \<in> set [''qdrant'', ''mongodb'']
   \<and> db_success (searchVectors env_qdrant_down ''boss'' 10)
       \<noteq> db_success (searchDocuments env_qdrant_down ''boss'' 10)
   \<and> totalSources (agg_summary (searchAll env_qdrant_down ''boss'' [''qdrant'', ''mongodb''] 10)) = 2
   \<and> successfulSources (agg_summary (searchAll env_qdrant_down ''boss'' [''qdrant'', ''mongodb''] 10)) = 1
   \<and> databases (searchAll env_qdrant_down ''boss'' [''qdrant'', ''mongodb''] 10) ''admin''
       = Some (Mongo_ok 1 [doc_sample])"
proof -
  have h1: "''qdrant'' \<in> set [''qdrant'', ''mongodb'']" by simp
  have h2: "''mongodb'' \<in> set [''qdrant'', ''mongodb''] \<or> ''admin'' \<in> set [''qdrant'', ''mongodb'']"
    by simp
  have h3: "db_success (searchVectors env_qdrant_down ''boss'' 10)
            \<noteq> db_success (searchDocuments env_qdrant_down ''boss'' 10)"
    by (simp add: searchVectors_down searchDocuments_down)
  show ?thesis
    using searchAll_one_backend_failing [OF h1 h2 h3] h1 h3 searchDocuments_down by simp
qed

section \<open>Search with timestamp priority\<close>

lemma searchVectors_sample:
  "searchVectors env_sample ''boss'' 10 = Qdrant_ok [hit_old, hit_undated] 2"
  by code_simp


lemma databases_qdrant:
  assumes "''qdrant'' \<in> set dbs"
  shows "databases (searchAll env query dbs n) ''qdrant'' = Some (searchVectors env query n)"
  using assms by (simp add: searchAll_def formatSearchResults_def createSearchPromises_def)

lemma ts_results_closed_form:
  assumes "opt_freshness_boost options \<noteq> Some False"
    and "''qdrant'' \<in> set (cfg_databases (parseTimestampSearchOptions options))"
    and "searchVectors env query (limit (parseTimestampSearchOptions options)) = Qdrant_ok hits cnt"
  shows "ts_results (searchWithTimestampPriority env query options) =
           sort_by_enhanced (sort_order env)
             (map (score_hit (clock env) (decay_factor (parseTimestampSearchOptions options))) hits)"
proof -
  define config where "config = parseTimestampSearchOptions options"
  define searchResult where
    "searchResult = searchAll env query (cfg_databases config) (limit config)"
  have fb: "freshness_boost config"
    using assms(1) by (simp add: config_def parseTimestampSearchOptions_def)
  have q: "databases searchResult ''qdrant'' = Some (Qdrant_ok hits cnt)"
    using databases_qdrant [OF assms(2), of env query "limit config"] assms(3)
    by (simp add: searchResult_def config_def)
  have qr: "qdrant_results searchResult \<noteq> None"
    using q by (simp add: qdrant_results_def)
  have "ts_results (formatTimestampSearchResult
          (applyTimestampScoring env searchResult (decay_factor config)) query config)
        = sort_by_enhanced (sort_order env) (map (score_hit (clock env) (decay_factor config)) hits)"
    using q by (simp add: formatTimestampSearchResult_def applyTimestampScoring_def
        qdrant_results_def)
  then show ?thesis
    using fb qr
    by (simp add: searchWithTimestampPriority_def Let_def config_def [symmetric]
        searchResult_def [symmetric])
qed







lemma sample_scores:
  "enhanced (score_hit 86400000 (1 / 10) hit_old) = 2 * exp (- (1 / 10))"
  "enhanced (score_hit 86400000 (1 / 10) hit_undated) = 2"
  "\<not> has_nan_score (score_hit 86400000 (1 / 10) hit_old)"
  "\<not> has_nan_score (score_hit 86400000 (1 / 10) hit_undated)"
  by (simp_all add: enhanced_def has_nan_score_def score_hit_def hit_old_def hit_undated_def
      calculateTimestampScore_def timestampField_def MS_PER_HOUR_def HOURS_IN_DAY_def Let_def)

lemma sample_sorted:
  "sort_by_enhanced order
     [score_hit 86400000 (1 / 10) hit_old, score_hit 86400000 (1 / 10) hit_undated]
     = [score_hit 86400000 (1 / 10) hit_undated, score_hit 86400000 (1 / 10) hit_old]"
  by (simp add: sort_by_enhanced_def sort_desc_def sample_scores)

lemma clock_sample: "clock env_sample = 86400000"
  by (simp add: env_sample_def)



lemma parse_options_zero_decay:
  "parseTimestampSearchOptions options_zero_decay
     = \<lparr> limit = 10, freshness_boost = True, decay_factor = 1 / 10,
         cfg_databases = [''qdrant''] \<rparr>"
  by (simp add: parseTimestampSearchOptions_def options_zero_decay_def or_default_def
      DEFAULT_LIMIT_def DEFAULT_DECAY_FACTOR_def)









text \<open>
  C3. A decay factor of 0 is replaced by the default 0.1, in the options of a
  timestamp-priority search and in the constructor of the search engine alike. So
  with \<open>decay_factor: 0\<close> the result that is one day old has the decay term
  \<open>exp (-0.1)\<close>, which is less than 1, and its score 2 becomes \<open>2 exp (-0.1)\<close>,
  where the claim has 1 and 2.
\<close>

theorem decay_factor_zero_replaced:
  "decay_factor (parseTimestampSearchOptions options_zero_decay) = 1 / 10
   \<and> freshnessDecayFactor (MultiDatabaseSearch engine_options_zero_decay) = 1 / 10
   \<and> map timestamp_boost (ts_results (searchWithTimestampPriority env_sample ''boss'' options_zero_decay))
       = [Some (Num 1), Some (Num (exp (- (1 / 10))))]
   \<and> map enhanced_score (ts_results (searchWithTimestampPriority env_sample ''boss'' options_zero_decay))
       = [Some (Num 2), Some (Num (2 * exp (- (1 / 10))))]
   \<and> exp (- (1 / 10)) < (1::real)"
proof -
  have h1: "opt_freshness_boost options_zero_decay \<noteq> Some False"
    by (simp add: options_zero_decay_def)
  have h2: "''qdrant'' \<in> set (cfg_databases (parseTimestampSearchOptions options_zero_decay))"
    by (simp add: parse_options_zero_decay)
  have h3: "searchVectors env_sample ''boss'' (limit (parseTimestampSearchOptions options_zero_decay))
              = Qdrant_ok [hit_old, hit_undated] 2"
    by (simp add: parse_options_zero_decay searchVectors_sample)
  have res: "ts_results (searchWithTimestampPriority env_sample ''boss'' options_zero_decay)
          = [score_hit 86400000 (1 / 10) hit_undated, score_hit 86400000 (1 / 10) hit_old]"
    using ts_results_closed_form [OF h1 h2 h3]
    by (simp add: parse_options_zero_decay clock_sample sample_sorted)
  have one: "decay_factor (parseTimestampSearchOptions options_zero_decay) = 1 / 10"
    by (simp add: parse_options_zero_decay)
  have two: "freshnessDecayFactor (MultiDatabaseSearch engine_options_zero_decay) = 1 / 10"
    by (simp add: MultiDatabaseSearch_def engine_options_zero_decay_def or_default_def
        DEFAULT_DECAY_FACTOR_def)
  have three: "map timestamp_boost (ts_results (searchWithTimestampPriority env_sample ''boss'' options_zero_decay))
       = [Some (Num 1), Some (Num (exp (- (1 / 10))))]"
    unfolding res
    by (simp add: score_hit_def Let_def hit_old_def hit_undated_def calculateTimestampScore_def
        timestampField_def MS_PER_HOUR_def HOURS_IN_DAY_def)
  have four: "map enhanced_score (ts_results (searchWithTimestampPriority env_sample ''boss'' options_zero_decay))
       = [Some (Num 2), Some (Num (2 * exp (- (1 / 10))))]"
    unfolding res
    by (simp add: score_hit_def Let_def hit_old_def hit_undated_def calculateTimestampScore_def
        timestampField_def MS_PER_HOUR_def HOURS_IN_DAY_def)
  have five: "exp (- (1 / 10)) < (1::real)" by simp
  from one two three four five show ?thesis by blast
qed

section \<open>The session store\<close>

lemma map_of_update_same: "map_of (AList.update k v al) k = Some v"
  by (simp add: update_conv')

lemma sessionData_props:
  "get_prop (sessionData_of env sessionId projectName ctx md) ''projectName''
     = map_option JStr projectName"
  "get_prop (sessionData_of env sessionId projectName ctx md) ''context''
     = Some (case ctx of None \<Rightarrow> JObj [] | Some c \<Rightarrow> c)"
  "get_prop (sessionData_of env sessionId projectName ctx md) ''metadata''
     = Some (case md of None \<Rightarrow> JObj [] | Some m \<Rightarrow> m)"
  "get_prop (sessionData_of env sessionId projectName ctx md) ''captureTime''
     = Some (JStr (iso_now env))"
  "sessionData_of env sessionId projectName ctx md \<noteq> JNull"
  by (cases projectName; simp add: sessionData_of_def)+

lemma captureSession_ok:
  assumes "is_Capture_ok (fst (captureSession this env fs sessionId projectName ctx md))"
  shows "read_session this (snd (captureSession this env fs sessionId projectName ctx md))
           (sessionId @ ''.json'')
         = Inr (sessionData_of env sessionId projectName ctx md)"
  using assms
  by (auto simp: captureSession_def Let_def read_session_def file_at_def map_of_update_same
      split: option.splits)

text \<open>
  C5. When \<open>captureSession\<close> succeeds, \<open>restoreSession\<close> with the same session id
  and no project name, run on the file system that the capture left, succeeds and
  returns exactly the context and the metadata that were written (\<open>{}\<close> for one that
  was not given), with the stored project name and capture time.
\<close>

theorem capture_restore_roundtrip:
  assumes "is_Capture_ok (fst (captureSession this env fs sessionId projectName ctx md))"
  shows "restoreSession this (snd (captureSession this env fs sessionId projectName ctx md))
           sessionId None
         = Restore_ok sessionId (map_option JStr projectName)
             (Some (case ctx of None \<Rightarrow> JObj [] | Some c \<Rightarrow> c))
             (Some (case md of None \<Rightarrow> JObj [] | Some m \<Rightarrow> m))
             (Some (JStr (iso_now env)))"
  using captureSession_ok [OF assms]
  by (simp add: restoreSession_def sessionData_props project_given_def)

text \<open>
  The theorem for the session \<open>s1\<close> of the project \<open>p1\<close>, captured into an empty
  file system.
\<close>

theorem capture_restore_roundtrip_witness:
  "is_Capture_ok (fst (captureSession bridge_default env_fixed [] ''s1'' (Some ''p1'')
                         (Some context_sample) None))
   \<and> restoreSession bridge_default
        (snd (captureSession bridge_default env_fixed [] ''s1'' (Some ''p1'')
                (Some context_sample) None))
        ''s1'' None
       = Restore_ok ''s1'' (Some (JStr ''p1'')) (Some context_sample) (Some (JObj []))
           (Some (JStr ''1970-01-01T00:00:00.000Z''))"
proof -
  have h: "is_Capture_ok (fst (captureSession bridge_default env_fixed [] ''s1'' (Some ''p1'')
                         (Some context_sample) None))"
    by (simp add: captureSession_def Let_def env_fixed_def)
  show ?thesis
    using capture_restore_roundtrip [OF h] h by (simp add: env_fixed_def)
qed

text \<open>
  The paths of some session ids in the default cache directory: \<open>./s1\<close> and
  \<open>x/../s1\<close> name the file of \<open>s1\<close>.
\<close>

lemma sample_paths:
  "file_path bridge_default ''s1.json'' = ''/app/rag-state/context_cache/s1.json''"
  "file_path bridge_default ''s2.json'' = ''/app/rag-state/context_cache/s2.json''"
  "file_path bridge_default ''./s1.json'' = ''/app/rag-state/context_cache/s1.json''"
  "file_path bridge_default ''x/../s1.json'' = ''/app/rag-state/context_cache/s1.json''"
  by code_simp+

lemma stored_s1:
  "file_at bridge_default fs_s1 (''s1'' @ ''.json'') = Some file_s1"
  "file_at bridge_default fs_s1 (''s2'' @ ''.json'') = None"
  "file_at bridge_default fs_s1 (''./s1'' @ ''.json'') = Some file_s1"
  "file_at bridge_default fs_s1 (''x/../s1'' @ ''.json'') = Some file_s1"
  by (simp_all add: file_at_def sample_paths fs_s1_def)

lemma restoreSession_found:
  assumes "file_at this fs (sessionId @ ''.json'') = Some f"
    and "file_text f = Json sessionData" and "sessionData \<noteq> JNull"
    and "\<not> project_given projectName"
  shows "restoreSession this fs sessionId projectName
           = Restore_ok sessionId (get_prop sessionData ''projectName'')
               (get_prop sessionData ''context'') (get_prop sessionData ''metadata'')
               (get_prop sessionData ''captureTime'')"
  using assms by (simp add: restoreSession_def read_session_def)

text \<open>A session id with \<open>.\<close> or \<open>..\<close> segments restores the file that its path names.\<close>

lemma restoreSession_normalised_id:
  "restoreSession bridge_default fs_s1 ''./s1'' None
     = Restore_ok ''./s1'' (Some (JStr ''p1'')) (Some context_sample) (Some (JObj []))
         (Some (JStr ''1970-01-01T00:00:00.000Z''))"
  "restoreSession bridge_default fs_s1 ''x/../s1'' None
     = Restore_ok ''x/../s1'' (Some (JStr ''p1'')) (Some context_sample) (Some (JObj []))
         (Some (JStr ''1970-01-01T00:00:00.000Z''))"
  using restoreSession_found [OF stored_s1(3), of _ None]
    restoreSession_found [OF stored_s1(4), of _ None]
  by (simp_all add: file_s1_def sessionData_props project_given_def env_fixed_def)




lemma collect_sessions_closed:
  "collect_sessions this current projectName files acc =
     acc @ List.map_filter (\<lambda>e. session_of_file this current (fst e) (snd e))
             (filter (\<lambda>e. ends_with (fst e) ''.json'' \<and> name_passes projectName (fst e)) files)"
proof (induction files arbitrary: acc)
  case Nil
  then show ?case by simp
next
  case (Cons e files)
  show ?case
  proof (cases "ends_with (fst e) ''.json'' \<and> name_passes projectName (fst e)")
    case True
    then show ?thesis
      using Cons.IH by (cases "session_of_file this current (fst e) (snd e)")
        simp_all
  next
    case False
    then show ?thesis
      using Cons.IH by auto
  qed
qed

lemma sample_names:
  "ends_with ''alpha-1.json'' ''.json''"
  "ends_with ''alpha-2.json'' ''.json''"
  "ends_with ''gamma.json'' ''.json''"
  "str_includes ''alpha-1.json'' ''alpha''"
  "str_includes ''alpha-2.json'' ''alpha''"
  "\<not> str_includes ''gamma.json'' ''alpha''"
  by code_simp+

lemma sample_sessions:
  "session_of_file this 0 ''alpha-1.json'' file_alpha_1
     = Some \<lparr> se_sessionId = JStr ''alpha-1'', se_projectName = Some (JStr ''beta''),
              lastAccessed = 0, se_size = 2, relevanceScore = 1 \<rparr>"
  "session_of_file this 0 ''alpha-2.json'' file_alpha_2
     = Some \<lparr> se_sessionId = JStr ''alpha-2'', se_projectName = Some (JStr ''beta''),
              lastAccessed = 0, se_size = 2, relevanceScore = 1 \<rparr>"
  by (simp_all add: session_of_file_def file_alpha_1_def file_alpha_2_def sessionData_of_def
      js_or_def bridge_calculateRelevance_def)

lemma matching_mixed:
  "filter (\<lambda>e. ends_with (fst e) ''.json'' \<and> str_includes (fst e) ''alpha'') files_mixed
     = [(''alpha-1.json'', file_alpha_1)]"
  by (simp add: files_mixed_def sample_names)

lemma matching_two:
  "filter (\<lambda>e. ends_with (fst e) ''.json'' \<and> str_includes (fst e) ''alpha'') files_two
     = [(''alpha-1.json'', file_alpha_1), (''alpha-2.json'', file_alpha_2)]"
  by (simp add: files_two_def sample_names)

lemma max_default: "maxActiveSessions bridge_default = 5" "maxActiveSessions bridge_one = 1"
  by (simp_all add: bridge_default_def bridge_one_def BOSSContextBridge_def or_default_def)

text \<open>
  C10, as amended. For a project name that is not empty, \<open>listActiveSessions\<close>
  keeps the files whose name ends in \<open>.json\<close> and holds the project name as a
  substring, whatever project name they store; of these the readable sessions are
  counted in \<open>total\<close>, sorted by descending relevance, and the first
  \<open>maxActiveSessions\<close> are listed. So when at most \<open>maxActiveSessions\<close> files
  pass, a session is listed exactly when it is the session of a file whose name holds
  the project name.
\<close>

theorem listActiveSessions_file_name_filter:
  assumes "p \<noteq> []"
  shows "listActiveSessions this current (Some files) (Some p) =
           List_ok
             (slice0 (maxActiveSessions this)
                (sort_desc relevanceScore
                   (List.map_filter (\<lambda>e. session_of_file this current (fst e) (snd e))
                      (filter (\<lambda>e. ends_with (fst e) ''.json'' \<and> str_includes (fst e) p) files))))
             (length (List.map_filter (\<lambda>e. session_of_file this current (fst e) (snd e))
                      (filter (\<lambda>e. ends_with (fst e) ''.json'' \<and> str_includes (fst e) p) files)))
         \<and> (int (length (filter (\<lambda>e. ends_with (fst e) ''.json'' \<and> str_includes (fst e) p) files))
               \<le> maxActiveSessions this \<longrightarrow>
             set (l_sessions (listActiveSessions this current (Some files) (Some p)))
               = {s. \<exists>e \<in> set files. ends_with (fst e) ''.json'' \<and> str_includes (fst e) p
                       \<and> session_of_file this current (fst e) (snd e) = Some s})"
proof -
  define matching where
    "matching = filter (\<lambda>e. ends_with (fst e) ''.json'' \<and> str_includes (fst e) p) files"
  define cands where
    "cands = List.map_filter (\<lambda>e. session_of_file this current (fst e) (snd e)) matching"
  have np: "name_passes (Some p) = (\<lambda>n. str_includes n p)"
    using assms by (simp add: name_passes_def fun_eq_iff)
  have eq: "listActiveSessions this current (Some files) (Some p) =
          List_ok (slice0 (maxActiveSessions this) (sort_desc relevanceScore cands)) (length cands)"
    unfolding listActiveSessions_def Let_def collect_sessions_closed np cands_def matching_def
    by (simp add: sort_desc_props)
  have len: "length cands \<le> length matching"
    unfolding cands_def by (rule length_map_filter)
  have sets: "set cands = {s. \<exists>e \<in> set files. ends_with (fst e) ''.json'' \<and> str_includes (fst e) p
                       \<and> session_of_file this current (fst e) (snd e) = Some s}"
  proof -
    have "set matching = {e \<in> set files. ends_with (fst e) ''.json'' \<and> str_includes (fst e) p}"
      by (simp add: matching_def)
    then show ?thesis
      unfolding cands_def set_map_filter by blast
  qed
  have "set (l_sessions (listActiveSessions this current (Some files) (Some p))) = set cands"
    if "int (length matching) \<le> maxActiveSessions this"
  proof -
    have "int (length (sort_desc relevanceScore cands)) \<le> maxActiveSessions this"
      using that len by (simp add: sort_desc_props)
    then have "slice0 (maxActiveSessions this) (sort_desc relevanceScore cands)
                 = sort_desc relevanceScore cands"
      by (rule slice0_all)
    then show ?thesis
      by (simp add: eq sort_desc_props)
  qed
  then show ?thesis
    using eq sets unfolding cands_def matching_def by simp
qed

text \<open>
  The theorem for the filter \<open>alpha\<close>: the session in \<open>alpha-1.json\<close>, stored
  for the project \<open>beta\<close>, is listed, and the session in \<open>gamma.json\<close>, stored for
  the project \<open>alpha\<close>, is not.
\<close>

theorem listActiveSessions_file_name_filter_witness:
  "''alpha'' \<noteq> []
   \<and> int (length (filter (\<lambda>e. ends_with (fst e) ''.json'' \<and> str_includes (fst e) ''alpha'')
                     files_mixed)) \<le> maxActiveSessions bridge_default
   \<and> l_total (listActiveSessions bridge_default 0 (Some files_mixed) (Some ''alpha'')) = 1
   \<and> map se_projectName
        (l_sessions (listActiveSessions bridge_default 0 (Some files_mixed) (Some ''alpha'')))
       = [Some (JStr ''beta'')]"
proof -
  have h1: "''alpha'' \<noteq> []" by simp
  have h2: "int (length (filter (\<lambda>e. ends_with (fst e) ''.json'' \<and> str_includes (fst e) ''alpha'')
                     files_mixed)) \<le> maxActiveSessions bridge_default"
    by (simp add: matching_mixed max_default)
  have "listActiveSessions bridge_default 0 (Some files_mixed) (Some ''alpha'')
          = List_ok [\<lparr> se_sessionId = JStr ''alpha-1'', se_projectName = Some (JStr ''beta''),
                       lastAccessed = 0, se_size = 2, relevanceScore = 1 \<rparr>] 1"
    using listActiveSessions_file_name_filter [OF h1, of bridge_default 0 files_mixed]
    by (simp add: matching_mixed sample_sessions sort_desc_def slice0_def
        max_default)
  then show ?thesis
    using h1 h2 by simp
qed

text \<open>
  C10 as stated fails when more files pass than \<open>maxActiveSessions\<close>: with a
  bridge that lists one session and two files whose names hold \<open>alpha\<close>, both are
  counted and the session of \<open>alpha-2.json\<close> is not listed.
\<close>

theorem listActiveSessions_truncation_counterexample:
  "str_includes ''alpha-2.json'' ''alpha''
   \<and> stored_file (Some files_two) ''alpha-2.json'' = Some file_alpha_2
   \<and> l_total (listActiveSessions bridge_one 0 (Some files_two) (Some ''alpha'')) = 2
   \<and> map se_sessionId
        (l_sessions (listActiveSessions bridge_one 0 (Some files_two) (Some ''alpha'')))
       = [JStr ''alpha-1'']"
proof -
  have np: "name_passes (Some ''alpha'') = (\<lambda>n. str_includes n ''alpha'')"
    by (simp add: name_passes_def fun_eq_iff)
  have "collect_sessions bridge_one 0 (Some ''alpha'') files_two []
          = [\<lparr> se_sessionId = JStr ''alpha-1'', se_projectName = Some (JStr ''beta''),
               lastAccessed = 0, se_size = 2, relevanceScore = 1 \<rparr>,
             \<lparr> se_sessionId = JStr ''alpha-2'', se_projectName = Some (JStr ''beta''),
               lastAccessed = 0, se_size = 2, relevanceScore = 1 \<rparr>]"
    by (simp add: files_two_def np sample_names sample_sessions)
  then have "listActiveSessions bridge_one 0 (Some files_two) (Some ''alpha'')
          = List_ok [\<lparr> se_sessionId = JStr ''alpha-1'', se_projectName = Some (JStr ''beta''),
                       lastAccessed = 0, se_size = 2, relevanceScore = 1 \<rparr>] 2"
    by (simp add: listActiveSessions_def Let_def sort_desc_def slice0_def max_default)
  moreover have "stored_file (Some files_two) ''alpha-2.json'' = Some file_alpha_2"
    by (simp add: stored_file_def files_two_def)
  ultimately show ?thesis
    using sample_names(5) by simp
qed

section \<open>The context pipeline\<close>














end
